theory Spec2Isabelle
  imports Main "HOL-Library.Char_ord" "HOL-Library.List_Lexorder"
begin

section \<open>Values and rows\<close>

text \<open>
  JavaScript values that travel in request and response bodies. A JavaScript object is
  the list of its properties; reading a property that is not there gives
  \<open>undefined\<close>, which is \<open>None\<close> here. Strings are byte strings
  (UTF-8), so an accented letter of a message is two characters.
\<close>

datatype json =
  JNull | JBool bool | JNum int | JStr string | JArr "json list" | JObj "(string \<times> json) list"

type_synonym jobject = "(string \<times> json) list"

definition get_prop :: "jobject \<Rightarrow> string \<Rightarrow> json option" where
  "get_prop obj k = map_of obj k"

fun json_keys :: "json \<Rightarrow> string set" where
  "json_keys (JArr xs) = (\<Union>x \<in> set xs. json_keys x)"
| "json_keys (JObj kvs) = (\<Union>kv \<in> set kvs. insert (fst kv) (json_keys (snd kv)))"
| "json_keys _ = {}"

record response =
  status :: nat
  body :: json

definition json_res :: "nat \<Rightarrow> jobject \<Rightarrow> response" where
  "json_res code obj = \<lparr>status = code, body = JObj obj\<rparr>"

definition failure :: "nat \<Rightarrow> string \<Rightarrow> response" where
  "failure code msg = json_res code [(''success'', JBool False), (''message'', JStr msg)]"

definition e_acute :: string where "e_acute = [CHR 0xC3, CHR 0xA9]"
definition e_grave :: string where "e_grave = [CHR 0xC3, CHR 0xA8]"
definition a_grave :: string where "a_grave = [CHR 0xC3, CHR 0xA0]"

text \<open>The tables of \<open>database.js\<close> (\<open>initDatabase\<close>), one record per row.\<close>

record user_row =
  u_id :: int
  u_email :: string
  u_password :: string
  u_first_name :: string
  u_last_name :: string
  u_role :: string
  u_is_active :: bool
  u_created_at :: string

record product_row =
  p_id :: int
  p_name :: string
  p_brand :: string
  p_description :: "string option"
  p_price :: json
  p_image_emoji :: "string option"
  p_sizes :: "string option"
  p_created_at :: string

record favorite_row =
  f_id :: int
  f_user_id :: int
  f_product_id :: int
  f_created_at :: string

record cart_row =
  c_id :: int
  c_user_id :: int
  c_product_id :: int
  c_quantity :: int
  c_created_at :: string

text \<open>
  The state of the SQLite file behind the connection \<open>db\<close>: the four tables in
  rowid order, the AUTOINCREMENT counters (\<open>sqlite_sequence\<close>), and the
  connection's \<open>PRAGMA foreign_keys\<close> setting, which decides whether the
  \<open>FOREIGN KEY ... ON DELETE CASCADE\<close> clauses of the schema are enforced.
\<close>

record database =
  users :: "user_row list"
  products :: "product_row list"
  favorites :: "favorite_row list"
  cart_items :: "cart_row list"
  users_seq :: int
  products_seq :: int
  favorites_seq :: int
  cart_items_seq :: int
  foreign_keys :: bool

text \<open>
  What the program calls but does not define: the clock behind
  \<open>CURRENT_TIMESTAMP\<close>, bcryptjs (\<open>None\<close> when the promise rejects), the
  express-validator chains of the two auth routes (the error array and the body
  after the sanitizers), the driver's binding of a JavaScript value as a TEXT, a
  NUMERIC or an INTEGER operand (\<open>None\<close> is NULL or no integer), JavaScript's
  conversion of a value that is not a string to a string, the token library
  behind csurf (the secret it draws for a session that has none, the token it
  creates for a secret, and its check of a presented token against a secret), and
  the store of express-rate-limit: \<open>window_end w t\<close> is the time, in
  milliseconds, at which the window ends that a request arriving at time \<open>t\<close>
  opens under \<open>windowMs = w\<close>.
\<close>

record env =
  now :: string
  bcrypt_hash :: "json option \<Rightarrow> string option"
  bcrypt_compare :: "json option \<Rightarrow> string \<Rightarrow> bool option"
  validate_register :: "jobject \<Rightarrow> json list \<times> jobject"
  validate_login :: "jobject \<Rightarrow> json list \<times> jobject"
  sql_text :: "json option \<Rightarrow> string option"
  sql_numeric :: "json option \<Rightarrow> json option"
  sql_integer :: "string \<Rightarrow> int option"
  toString :: "json \<Rightarrow> string"
  csrf_secret :: string
  csrf_create :: "string \<Rightarrow> string"
  csrf_verify :: "string \<Rightarrow> string option \<Rightarrow> bool"
  window_end :: "nat \<Rightarrow> nat \<Rightarrow> nat"

record session =
  userId :: "int option"
  csrfSecret :: "string option"

section \<open>The statements sent through dbGet, dbAll and dbRun\<close>

text \<open>\<open>SELECT id FROM products WHERE name = ?\<close> through \<open>dbGet\<close>: the first row or null.\<close>

definition product_by_name :: "database \<Rightarrow> string \<Rightarrow> product_row option" where
  "product_by_name d n = find (\<lambda>p. p_name p = n) (products d)"

text \<open>\<open>SELECT id FROM favorites WHERE user_id = ? AND product_id = ?\<close>\<close>

definition favorite_of :: "database \<Rightarrow> int \<Rightarrow> int \<Rightarrow> favorite_row option" where
  "favorite_of d uid pid = find (\<lambda>f. f_user_id f = uid \<and> f_product_id f = pid) (favorites d)"

text \<open>\<open>DELETE FROM favorites WHERE id = ?\<close>\<close>

definition delete_favorite :: "database \<Rightarrow> int \<Rightarrow> database" where
  "delete_favorite d fid = d\<lparr>favorites := filter (\<lambda>f. f_id f \<noteq> fid) (favorites d)\<rparr>"

text \<open>
  A row of \<open>favorites\<close> or \<open>cart_items\<close> may be inserted when the pair is
  new (\<open>UNIQUE(user_id, product_id)\<close>) and, with foreign keys enforced, when both
  parents exist. Otherwise \<open>dbRun\<close> rejects.
\<close>

definition may_insert :: "database \<Rightarrow> (int \<times> int) list \<Rightarrow> int \<Rightarrow> int \<Rightarrow> bool" where
  "may_insert d pairs uid pid \<longleftrightarrow>
     (uid, pid) \<notin> set pairs \<and>
     (if foreign_keys d
      then uid \<in> set (map u_id (users d)) \<and> pid \<in> set (map p_id (products d))
      else True)"

text \<open>\<open>INSERT INTO favorites (user_id, product_id) VALUES (?, ?)\<close>\<close>

definition insert_favorite :: "env \<Rightarrow> database \<Rightarrow> int \<Rightarrow> int \<Rightarrow> database option" where
  "insert_favorite e d uid pid =
     (if may_insert d (map (\<lambda>f. (f_user_id f, f_product_id f)) (favorites d)) uid pid
      then Some (d\<lparr>favorites := favorites d @
                    [\<lparr>f_id = favorites_seq d + 1, f_user_id = uid, f_product_id = pid,
                      f_created_at = now e\<rparr>],
                  favorites_seq := favorites_seq d + 1\<rparr>)
      else None)"

text \<open>\<open>SELECT id, quantity FROM cart_items WHERE user_id = ? AND product_id = ?\<close>\<close>

definition cart_item_of :: "database \<Rightarrow> int \<Rightarrow> int \<Rightarrow> cart_row option" where
  "cart_item_of d uid pid = find (\<lambda>c. c_user_id c = uid \<and> c_product_id c = pid) (cart_items d)"

text \<open>
  \<open>quantity + 1\<close> as SQLite computes it. An INTEGER is a signed 64-bit number; the
  sum that no longer fits, \<open>(2^63 - 1) + 1\<close>, is the REAL \<open>2^63\<close>, which the
  column keeps as a REAL, and a REAL of that size plus 1 is the same REAL again. A
  quantity is the number the column holds; from \<open>2^63\<close> on it is a REAL.
\<close>

definition add_one :: "int \<Rightarrow> int" where
  "add_one q = (if q < 2 ^ 63 - 1 then q + 1 else if q = 2 ^ 63 - 1 then 2 ^ 63 else q)"

text \<open>\<open>UPDATE cart_items SET quantity = quantity + 1 WHERE id = ?\<close>\<close>

definition increment_cart_item :: "database \<Rightarrow> int \<Rightarrow> database" where
  "increment_cart_item d cid =
     d\<lparr>cart_items := map (\<lambda>c. if c_id c = cid then c\<lparr>c_quantity := add_one (c_quantity c)\<rparr> else c)
                          (cart_items d)\<rparr>"

text \<open>\<open>INSERT INTO cart_items (user_id, product_id, quantity) VALUES (?, ?, 1)\<close>\<close>

definition insert_cart_item :: "env \<Rightarrow> database \<Rightarrow> int \<Rightarrow> int \<Rightarrow> database option" where
  "insert_cart_item e d uid pid =
     (if may_insert d (map (\<lambda>c. (c_user_id c, c_product_id c)) (cart_items d)) uid pid
      then Some (d\<lparr>cart_items := cart_items d @
                    [\<lparr>c_id = cart_items_seq d + 1, c_user_id = uid, c_product_id = pid,
                      c_quantity = 1, c_created_at = now e\<rparr>],
                  cart_items_seq := cart_items_seq d + 1\<rparr>)
      else None)"

text \<open>\<open>DELETE FROM cart_items WHERE user_id = ? AND product_id = ?\<close>\<close>

definition delete_cart_item :: "database \<Rightarrow> int \<Rightarrow> int \<Rightarrow> database" where
  "delete_cart_item d uid pid =
     d\<lparr>cart_items := filter (\<lambda>c. \<not> (c_user_id c = uid \<and> c_product_id c = pid)) (cart_items d)\<rparr>"

text \<open>\<open>SELECT id, email, first_name, last_name, role, is_active FROM users WHERE id = ?\<close>\<close>

definition user_by_id :: "database \<Rightarrow> int \<Rightarrow> user_row option" where
  "user_by_id d uid = find (\<lambda>u. u_id u = uid) (users d)"

section \<open>Middleware of server.js\<close>

text \<open>
  \<open>authenticateToken\<close>: \<open>!req.session.userId\<close> holds for a session without a
  user id and for the id 0; the user must exist and be active. \<open>Inl\<close> is the
  response that ends the request, \<open>Inr\<close> is the row found. \<open>req.user\<close> is that
  row restricted to the columns of the query; the routes read its \<open>id\<close> and
  \<open>role\<close>, and \<open>verify\<close> sends it as it is.
\<close>

definition authenticateToken :: "database \<Rightarrow> session \<Rightarrow> response + user_row" where
  "authenticateToken d s =
     (case userId s of
        None \<Rightarrow> Inl (failure 401 (''Non authentifi'' @ e_acute))
      | Some uid \<Rightarrow>
          if uid = 0 then Inl (failure 401 (''Non authentifi'' @ e_acute))
          else (case user_by_id d uid of
                  None \<Rightarrow> Inl (failure 401 (''Utilisateur non trouv'' @ e_acute @ '' ou d'' @ e_acute @ ''sactiv'' @ e_acute))
                | Some user \<Rightarrow>
                    if \<not> u_is_active user
                    then Inl (failure 401 (''Utilisateur non trouv'' @ e_acute @ '' ou d'' @ e_acute @ ''sactiv'' @ e_acute))
                    else Inr user))"

text \<open>\<open>requireAdmin\<close>\<close>

definition requireAdmin :: "user_row \<Rightarrow> response option" where
  "requireAdmin user =
     (if u_role user \<noteq> ''admin''
      then Some (failure 403 (''Acc'' @ e_grave @ ''s administrateur requis''))
      else None)"

section \<open>decodeURIComponent\<close>

text \<open>
  The built-in \<open>decodeURIComponent\<close> on byte strings. A \<open>%\<close> must be followed
  by two hexadecimal digits; an escaped byte below 0x80 is that character; an
  escaped lead byte of a longer UTF-8 sequence must be followed by its continuation
  bytes, each escaped as well, and the sequence must encode a code point (no
  overlong form, no surrogate, nothing above U+10FFFF). Every other character stands
  for itself. \<open>None\<close> is the URIError thrown otherwise.
\<close>

definition hex_value :: "char \<Rightarrow> nat option" where
  "hex_value c =
     (let n = of_char c :: nat in
      if 48 \<le> n \<and> n \<le> 57 then Some (n - 48)
      else if 65 \<le> n \<and> n \<le> 70 then Some (n - 55)
      else if 97 \<le> n \<and> n \<le> 102 then Some (n - 87)
      else None)"

datatype uri_token = Plain char | Escape nat

fun uri_tokens :: "string \<Rightarrow> uri_token list option" where
  "uri_tokens [] = Some []"
| "uri_tokens (c # cs) =
     (if c = CHR ''%''
      then (case cs of
              a # b # rest \<Rightarrow>
                (case (hex_value a, hex_value b) of
                   (Some x, Some y) \<Rightarrow> map_option (Cons (Escape (16 * x + y))) (uri_tokens rest)
                 | _ \<Rightarrow> None)
            | _ \<Rightarrow> None)
      else map_option (Cons (Plain c)) (uri_tokens cs))"

text \<open>The length of the UTF-8 sequence that a lead byte announces.\<close>

definition utf8_length :: "nat \<Rightarrow> nat option" where
  "utf8_length b =
     (if b < 0x80 then Some 1
      else if 0xC0 \<le> b \<and> b < 0xE0 then Some 2
      else if 0xE0 \<le> b \<and> b < 0xF0 then Some 3
      else if 0xF0 \<le> b \<and> b < 0xF8 then Some 4
      else None)"

definition continuation :: "nat \<Rightarrow> bool" where
  "continuation b \<longleftrightarrow> 0x80 \<le> b \<and> b \<le> 0xBF"

fun valid_utf8 :: "nat list \<Rightarrow> bool" where
  "valid_utf8 [b] \<longleftrightarrow> b < 0x80"
| "valid_utf8 [b, c] \<longleftrightarrow> 0xC2 \<le> b \<and> b \<le> 0xDF \<and> continuation c"
| "valid_utf8 [b, c, d] \<longleftrightarrow>
     0xE0 \<le> b \<and> b \<le> 0xEF \<and> continuation c \<and> continuation d \<and>
     (if b = 0xE0 then 0xA0 \<le> c else True) \<and> (if b = 0xED then c \<le> 0x9F else True)"
| "valid_utf8 [b, c, d, x] \<longleftrightarrow>
     0xF0 \<le> b \<and> b \<le> 0xF4 \<and> continuation c \<and> continuation d \<and> continuation x \<and>
     (if b = 0xF0 then 0x90 \<le> c else True) \<and> (if b = 0xF4 then c \<le> 0x8F else True)"
| "valid_utf8 _ \<longleftrightarrow> False"

fun escaped :: "uri_token list \<Rightarrow> nat list option" where
  "escaped [] = Some []"
| "escaped (Escape b # ts) = map_option (Cons b) (escaped ts)"
| "escaped (Plain c # ts) = None"

fun uri_octets :: "uri_token list \<Rightarrow> string option" where
  "uri_octets [] = Some []"
| "uri_octets (Plain c # ts) = map_option (Cons c) (uri_octets ts)"
| "uri_octets (Escape b # ts) =
     (case utf8_length b of
        None \<Rightarrow> None
      | Some n \<Rightarrow>
          if length ts < n - 1 then None
          else (case escaped (take (n - 1) ts) of
                  None \<Rightarrow> None
                | Some octets \<Rightarrow>
                    if valid_utf8 (b # octets)
                    then map_option (append (map char_of (b # octets))) (uri_octets (drop (n - 1) ts))
                    else None))"

definition decodeURIComponent :: "string \<Rightarrow> string option" where
  "decodeURIComponent s = (case uri_tokens s of None \<Rightarrow> None | Some ts \<Rightarrow> uri_octets ts)"

section \<open>Favorites and cart routes\<close>

definition produit_non_trouve :: response where
  "produit_non_trouve = failure 404 (''Produit non trouv'' @ e_acute)"

text \<open>
  \<open>productName\<close> is \<open>req.params.productName\<close>, the path segment as Express
  hands it over: already decoded once. The three handlers decode it again, inside
  their \<open>try\<close>, and answer 500 from the \<open>catch\<close> when that throws.
\<close>

text \<open>The body of \<open>POST /api/users/favorites/:productName\<close>, after \<open>authenticateToken\<close>.\<close>

definition favorites_toggle :: "env \<Rightarrow> database \<Rightarrow> user_row \<Rightarrow> string \<Rightarrow> database \<times> response" where
  "favorites_toggle e d user productName =
     (case decodeURIComponent productName of
        None \<Rightarrow> (d, failure 500 ''Erreur gestion favoris'')
      | Some decodedProductName \<Rightarrow>
          (case product_by_name d decodedProductName of
             None \<Rightarrow> (d, produit_non_trouve)
           | Some product \<Rightarrow>
               (case favorite_of d (u_id user) (p_id product) of
                  Some existingFavorite \<Rightarrow>
                    (delete_favorite d (f_id existingFavorite),
                     json_res 200 [(''success'', JBool True),
                                   (''message'', JStr (''Produit retir'' @ e_acute @ '' des favoris'')),
                                   (''isFavorite'', JBool False)])
                | None \<Rightarrow>
                    (case insert_favorite e d (u_id user) (p_id product) of
                       None \<Rightarrow> (d, failure 500 ''Erreur gestion favoris'')
                     | Some d' \<Rightarrow>
                         (d', json_res 200 [(''success'', JBool True),
                                            (''message'', JStr (''Produit ajout'' @ e_acute @ '' aux favoris'')),
                                            (''isFavorite'', JBool True)])))))"

definition post_favorite :: "env \<Rightarrow> database \<Rightarrow> session \<Rightarrow> string \<Rightarrow> database \<times> response" where
  "post_favorite e d s productName =
     (case authenticateToken d s of
        Inl r \<Rightarrow> (d, r)
      | Inr user \<Rightarrow> favorites_toggle e d user productName)"

text \<open>The body of \<open>POST /api/users/cart/:productName\<close>.\<close>

definition cart_add :: "env \<Rightarrow> database \<Rightarrow> user_row \<Rightarrow> string \<Rightarrow> database \<times> response" where
  "cart_add e d user productName =
     (case decodeURIComponent productName of
        None \<Rightarrow> (d, failure 500 ''Erreur ajout panier'')
      | Some decodedProductName \<Rightarrow>
          (case product_by_name d decodedProductName of
             None \<Rightarrow> (d, produit_non_trouve)
           | Some product \<Rightarrow>
               (case (case cart_item_of d (u_id user) (p_id product) of
                        Some existingItem \<Rightarrow> Some (increment_cart_item d (c_id existingItem))
                      | None \<Rightarrow> insert_cart_item e d (u_id user) (p_id product)) of
                  None \<Rightarrow> (d, failure 500 ''Erreur ajout panier'')
                | Some d' \<Rightarrow>
                    (d', json_res 200 [(''success'', JBool True),
                                       (''message'', JStr (''Produit ajout'' @ e_acute @ '' au panier''))]))))"

definition post_cart :: "env \<Rightarrow> database \<Rightarrow> session \<Rightarrow> string \<Rightarrow> database \<times> response" where
  "post_cart e d s productName =
     (case authenticateToken d s of
        Inl r \<Rightarrow> (d, r)
      | Inr user \<Rightarrow> cart_add e d user productName)"

text \<open>The body of \<open>DELETE /api/users/cart/:productName\<close>.\<close>

definition cart_remove :: "env \<Rightarrow> database \<Rightarrow> user_row \<Rightarrow> string \<Rightarrow> database \<times> response" where
  "cart_remove e d user productName =
     (case decodeURIComponent productName of
        None \<Rightarrow> (d, failure 500 ''Erreur suppression panier'')
      | Some decodedProductName \<Rightarrow>
          (case product_by_name d decodedProductName of
             None \<Rightarrow> (d, produit_non_trouve)
           | Some product \<Rightarrow>
               (delete_cart_item d (u_id user) (p_id product),
                json_res 200 [(''success'', JBool True),
                              (''message'', JStr (''Produit retir'' @ e_acute @ '' du panier''))])))"

definition delete_cart :: "env \<Rightarrow> database \<Rightarrow> session \<Rightarrow> string \<Rightarrow> database \<times> response" where
  "delete_cart e d s productName =
     (case authenticateToken d s of
        Inl r \<Rightarrow> (d, r)
      | Inr user \<Rightarrow> cart_remove e d user productName)"


section \<open>Users and products: statements and seeding\<close>

text \<open>
  \<open>INSERT INTO users (email, password, first_name, last_name[, role]) VALUES (...)\<close>:
  \<open>is_active\<close> takes its default 1, \<open>role\<close> its default \<open>'user'\<close> where the
  statement gives none. The insert fails on \<open>UNIQUE(email)\<close> and on
  \<open>CHECK(role IN ('user', 'admin'))\<close>.
\<close>

definition insert_user ::
  "env \<Rightarrow> database \<Rightarrow> string \<Rightarrow> string \<Rightarrow> string \<Rightarrow> string \<Rightarrow> string \<Rightarrow> database option" where
  "insert_user e d email password first_name last_name role =
     (if email \<in> set (map u_email (users d)) \<or> (role \<noteq> ''user'' \<and> role \<noteq> ''admin'') then None
      else Some (d\<lparr>users := users d @
                    [\<lparr>u_id = users_seq d + 1, u_email = email, u_password = password,
                      u_first_name = first_name, u_last_name = last_name, u_role = role,
                      u_is_active = True, u_created_at = now e\<rparr>],
                  users_seq := users_seq d + 1\<rparr>))"

text \<open>
  \<open>INSERT INTO products (name, brand, description, price, image_emoji, sizes)
  VALUES (?, ?, ?, ?, ?, ?)\<close>: the table has no uniqueness constraint, so with values
  for the NOT NULL columns the insert always succeeds (also under \<open>OR IGNORE\<close>).
\<close>

definition insert_product ::
  "env \<Rightarrow> string \<times> string \<times> string option \<times> json \<times> string option \<times> string option \<Rightarrow> database \<Rightarrow> database" where
  "insert_product e v d =
     (case v of (name, brand, description, price, image_emoji, sizes) \<Rightarrow>
        d\<lparr>products := products d @
             [\<lparr>p_id = products_seq d + 1, p_name = name, p_brand = brand,
               p_description = description, p_price = price, p_image_emoji = image_emoji,
               p_sizes = sizes, p_created_at = now e\<rparr>],
           products_seq := products_seq d + 1\<rparr>)"

text \<open>
  \<open>new sqlite3.Database(dbPath)\<close> on a fresh file. The program never sends
  \<open>PRAGMA foreign_keys = ON\<close>, so the connection keeps SQLite's default: foreign
  key constraints are not enforced.
\<close>

definition db :: database where
  "db = \<lparr>users = [], products = [], favorites = [], cart_items = [],
          users_seq = 0, products_seq = 0, favorites_seq = 0, cart_items_seq = 0,
          foreign_keys = False\<rparr>"

definition seed_products :: "(string \<times> string \<times> string option \<times> json \<times> string option \<times> string option) list" where
  "seed_products =
     [(''Air Jordan 1 Retro High'', ''NIKE'', Some ''Chicago - Rouge/Blanc/Noir'', JNum 179,
       Some [CHR 0xF0, CHR 0x9F, CHR 0x91, CHR 0x9F], Some ''38-46''),
      (''Yeezy Boost 350 V2'', ''ADIDAS'', Some ''Zebra - Blanc/Noir'', JNum 249,
       Some [CHR 0xF0, CHR 0x9F, CHR 0x8F, CHR 0x83], Some ''36-45''),
      (''Air Max 90'', ''NIKE'', Some ''Triple White'', JNum 129,
       Some [CHR 0xE2, CHR 0x9A, CHR 0xA1], Some ''37-47'')]"

text \<open>
  \<open>initDatabase\<close>: the \<open>CREATE TABLE IF NOT EXISTS\<close> statements change no row;
  the default admin is inserted \<open>OR IGNORE\<close> (a failed insert leaves the table as it
  is); the three products are inserted. \<open>None\<close> is the rejected promise.
\<close>

definition initDatabase :: "env \<Rightarrow> database \<Rightarrow> database option" where
  "initDatabase e d =
     (case bcrypt_hash e (Some (JStr ''#Adm1nSneakZone97!'')) of
        None \<Rightarrow> None
      | Some adminHash \<Rightarrow>
          Some (fold (insert_product e) seed_products
                  (case insert_user e d ''admin@sneakzone.com'' adminHash ''Admin'' ''SneakZone'' ''admin'' of
                     None \<Rightarrow> d
                   | Some d' \<Rightarrow> d')))"


section \<open>Registration, login, verify, logout\<close>

text \<open>\<open>SELECT ... FROM users WHERE email = ?\<close> through \<open>dbGet\<close>; a NULL operand matches no row.\<close>

definition user_by_email :: "env \<Rightarrow> database \<Rightarrow> json option \<Rightarrow> user_row option" where
  "user_by_email e d email =
     (case sql_text e email of
        None \<Rightarrow> None
      | Some t \<Rightarrow> find (\<lambda>u. u_email u = t) (users d))"

text \<open>\<open>handleValidationErrors\<close>: the response of a request whose error array is not empty.\<close>

definition handleValidationErrors :: "json list \<Rightarrow> response option" where
  "handleValidationErrors errors =
     (if errors \<noteq> []
      then Some (json_res 400 [(''success'', JBool False),
                               (''message'', JStr (''Donn'' @ e_acute @ ''es invalides'')),
                               (''errors'', JArr errors)])
      else None)"

text \<open>The \<open>user\<close> object of the register and login responses.\<close>

definition user_json :: "user_row \<Rightarrow> json" where
  "user_json u =
     JObj [(''id'', JNum (u_id u)), (''email'', JStr (u_email u)),
           (''firstName'', JStr (u_first_name u)), (''lastName'', JStr (u_last_name u)),
           (''role'', JStr (u_role u))]"

text \<open>
  \<open>POST /api/auth/register\<close>. The insert binds the sanitized email, the hash and
  the two names; a NULL for a NOT NULL column makes \<open>dbRun\<close> reject, as does a
  failing constraint. Every rejection and every throw ends in the \<open>catch\<close>.
\<close>

definition register :: "env \<Rightarrow> database \<times> session \<Rightarrow> jobject \<Rightarrow> (database \<times> session) \<times> response" where
  "register e st reqBody =
     (case st of (d, s) \<Rightarrow>
      (case validate_register e reqBody of (errors, body') \<Rightarrow>
       (case handleValidationErrors errors of
          Some r \<Rightarrow> (st, r)
        | None \<Rightarrow>
            (case user_by_email e d (get_prop body' ''email'') of
               Some existingUser \<Rightarrow>
                 (st, failure 400 (''Un compte avec cet email existe d'' @ e_acute @ ''j'' @ a_grave))
             | None \<Rightarrow>
                 (case bcrypt_hash e (get_prop body' ''password'') of
                    None \<Rightarrow> (st, failure 500 (''Erreur cr'' @ e_acute @ ''ation compte''))
                  | Some hashedPassword \<Rightarrow>
                      (case (case (sql_text e (get_prop body' ''email''),
                                   sql_text e (get_prop body' ''firstName''),
                                   sql_text e (get_prop body' ''lastName'')) of
                               (Some email, Some firstName, Some lastName) \<Rightarrow>
                                 insert_user e d email hashedPassword firstName lastName ''user''
                             | _ \<Rightarrow> None) of
                         None \<Rightarrow> (st, failure 500 (''Erreur cr'' @ e_acute @ ''ation compte''))
                       | Some d' \<Rightarrow>
                           (case user_by_id d' (users_seq d') of
                              None \<Rightarrow> ((d', s\<lparr>userId := Some (users_seq d')\<rparr>),
                                        failure 500 (''Erreur cr'' @ e_acute @ ''ation compte''))
                            | Some newUser \<Rightarrow>
                                ((d', s\<lparr>userId := Some (users_seq d')\<rparr>),
                                 json_res 200 [(''success'', JBool True),
                                               (''message'', JStr (''Compte cr'' @ e_acute @ e_acute @ '' avec succ'' @ e_grave @ ''s'')),
                                               (''user'', user_json newUser)]))))))))"

text \<open>\<open>POST /api/auth/login\<close>. The database is only read.\<close>

definition login :: "env \<Rightarrow> database \<Rightarrow> session \<Rightarrow> jobject \<Rightarrow> session \<times> response" where
  "login e d s reqBody =
     (case validate_login e reqBody of (errors, body') \<Rightarrow>
      (case handleValidationErrors errors of
         Some r \<Rightarrow> (s, r)
       | None \<Rightarrow>
           (case user_by_email e d (get_prop body' ''email'') of
              None \<Rightarrow> (s, failure 401 ''Email ou mot de passe incorrect'')
            | Some user \<Rightarrow>
                if \<not> u_is_active user
                then (s, failure 401 (''Compte d'' @ e_acute @ ''sactiv'' @ e_acute))
                else (case bcrypt_compare e (get_prop body' ''password'') (u_password user) of
                        None \<Rightarrow> (s, failure 500 ''Erreur connexion'')
                      | Some isPasswordValid \<Rightarrow>
                          if \<not> isPasswordValid
                          then (s, failure 401 ''Email ou mot de passe incorrect'')
                          else (s\<lparr>userId := Some (u_id user)\<rparr>,
                                json_res 200 [(''success'', JBool True),
                                              (''message'', JStr (''Connexion r'' @ e_acute @ ''ussie'')),
                                              (''user'', user_json user)])))))"

text \<open>
  A row object as the driver returns it for a column list of \<open>users\<close>: one property
  per selected column. \<open>is_active\<close> is stored as 1 or 0.
\<close>

definition user_column :: "user_row \<Rightarrow> string \<Rightarrow> json" where
  "user_column u c =
     (if c = ''id'' then JNum (u_id u)
      else if c = ''email'' then JStr (u_email u)
      else if c = ''password'' then JStr (u_password u)
      else if c = ''first_name'' then JStr (u_first_name u)
      else if c = ''last_name'' then JStr (u_last_name u)
      else if c = ''role'' then JStr (u_role u)
      else if c = ''is_active'' then JNum (if u_is_active u then 1 else 0)
      else if c = ''created_at'' then JStr (u_created_at u)
      else JNull)"

definition select_columns :: "string list \<Rightarrow> user_row \<Rightarrow> json" where
  "select_columns cols u = JObj (map (\<lambda>c. (c, user_column u c)) cols)"

text \<open>The column list of the query in \<open>authenticateToken\<close>: \<open>req.user\<close> has these properties.\<close>

definition auth_columns :: "string list" where
  "auth_columns = [''id'', ''email'', ''first_name'', ''last_name'', ''role'', ''is_active'']"

text \<open>\<open>GET /api/auth/verify\<close>\<close>

definition verify :: "database \<Rightarrow> session \<Rightarrow> response" where
  "verify d s =
     (case authenticateToken d s of
        Inl r \<Rightarrow> r
      | Inr user \<Rightarrow> json_res 200 [(''success'', JBool True), (''user'', select_columns auth_columns user)])"

text \<open>\<open>POST /api/auth/logout\<close>: the session is destroyed.\<close>

definition logout :: "session \<Rightarrow> session \<times> response" where
  "logout s =
     (\<lparr>userId = None, csrfSecret = None\<rparr>,
      json_res 200 [(''success'', JBool True),
                    (''message'', JStr (''D'' @ e_acute @ ''connexion r'' @ e_acute @ ''ussie''))])"

section \<open>Read routes\<close>

text \<open>A row of \<open>SELECT * FROM products\<close> (\<open>p.*\<close> in the joins).\<close>

definition opt_text :: "string option \<Rightarrow> json" where
  "opt_text v = (case v of None \<Rightarrow> JNull | Some t \<Rightarrow> JStr t)"

definition product_json :: "product_row \<Rightarrow> jobject" where
  "product_json p =
     [(''id'', JNum (p_id p)), (''name'', JStr (p_name p)), (''brand'', JStr (p_brand p)),
      (''description'', opt_text (p_description p)), (''price'', p_price p),
      (''image_emoji'', opt_text (p_image_emoji p)), (''sizes'', opt_text (p_sizes p)),
      (''created_at'', JStr (p_created_at p))]"

text \<open>\<open>GET /api/products\<close>\<close>

definition get_products :: "database \<Rightarrow> response" where
  "get_products d = json_res 200 [(''success'', JBool True),
                                  (''products'', JArr (map (\<lambda>p. JObj (product_json p)) (products d)))]"

text \<open>
  \<open>GET /api/users/favorites\<close>: the user's favorites joined with their products,
  newest first (rows of one timestamp in reverse rowid order here; SQLite leaves the
  order of ties open).
\<close>

definition get_favorites :: "database \<Rightarrow> session \<Rightarrow> response" where
  "get_favorites d s =
     (case authenticateToken d s of
        Inl r \<Rightarrow> r
      | Inr user \<Rightarrow>
          json_res 200
            [(''success'', JBool True),
             (''favorites'',
              JArr (concat (map (\<lambda>f. map (\<lambda>p. JObj (product_json p @ [(''favorited_at'', JStr (f_created_at f))]))
                                         (filter (\<lambda>p. p_id p = f_product_id f) (products d)))
                                (rev (sort_key f_created_at
                                        (filter (\<lambda>f. f_user_id f = u_id user) (favorites d)))))))])"

text \<open>\<open>GET /api/users/cart\<close>\<close>

definition get_cart :: "database \<Rightarrow> session \<Rightarrow> response" where
  "get_cart d s =
     (case authenticateToken d s of
        Inl r \<Rightarrow> r
      | Inr user \<Rightarrow>
          json_res 200
            [(''success'', JBool True),
             (''cartItems'',
              JArr (concat (map (\<lambda>c. map (\<lambda>p. JObj (product_json p @ [(''quantity'', JNum (c_quantity c))]))
                                         (filter (\<lambda>p. p_id p = c_product_id c) (products d)))
                                (filter (\<lambda>c. c_user_id c = u_id user) (cart_items d)))))])"


section \<open>admin.js\<close>

text \<open>The column list of \<open>getUsers\<close>.\<close>

definition listing_columns :: "string list" where
  "listing_columns = [''id'', ''email'', ''first_name'', ''last_name'', ''role'', ''is_active'', ''created_at'']"

definition getUsers :: "database \<Rightarrow> jobject" where
  "getUsers d =
     [(''success'', JBool True),
      (''users'', JArr (map (select_columns listing_columns) (rev (sort_key u_created_at (users d)))))]"

definition getStats :: "database \<Rightarrow> jobject" where
  "getStats d =
     (let totalUsers = int (length (users d));
          totalAdmins = int (length (filter (\<lambda>u. u_role u = ''admin'') (users d)));
          activeUsers = int (length (filter u_is_active (users d)));
          totalProducts = int (length (products d))
      in [(''success'', JBool True),
          (''stats'', JObj [(''totalUsers'', JNum totalUsers), (''totalAdmins'', JNum totalAdmins),
                            (''activeUsers'', JNum activeUsers), (''totalProducts'', JNum totalProducts),
                            (''totalRegularUsers'', JNum (totalUsers - totalAdmins))])])"

text \<open>
  \<open>updateUser\<close> builds \<open>validUpdates\<close> from two properties of the body:
  \<open>role\<close>, kept when it is one of the strings \<open>'user'\<close> and \<open>'admin'\<close>, and
  \<open>is_active\<close>, kept when it is a boolean.
\<close>

definition valid_role :: "jobject \<Rightarrow> string option" where
  "valid_role updates =
     (case get_prop updates ''role'' of
        Some (JStr r) \<Rightarrow> if r = ''user'' \<or> r = ''admin'' then Some r else None
      | _ \<Rightarrow> None)"

definition valid_is_active :: "jobject \<Rightarrow> bool option" where
  "valid_is_active updates =
     (case get_prop updates ''is_active'' of
        Some (JBool b) \<Rightarrow> Some b
      | _ \<Rightarrow> None)"

text \<open>
  \<open>UPDATE users SET [role = ?][, ][is_active = ?] WHERE id = ?\<close>, the id operand being
  the text of the path parameter.
\<close>

definition set_columns :: "string option \<Rightarrow> bool option \<Rightarrow> user_row \<Rightarrow> user_row" where
  "set_columns role active u =
     (let u1 = (case role of None \<Rightarrow> u | Some r \<Rightarrow> u\<lparr>u_role := r\<rparr>)
      in (case active of None \<Rightarrow> u1 | Some b \<Rightarrow> u1\<lparr>u_is_active := b\<rparr>))"

definition update_users :: "env \<Rightarrow> database \<Rightarrow> string option \<Rightarrow> bool option \<Rightarrow> string \<Rightarrow> database" where
  "update_users e d role active user_id =
     d\<lparr>users := map (\<lambda>u. if sql_integer e user_id = Some (u_id u) then set_columns role active u else u)
                     (users d)\<rparr>"

definition updateUser :: "env \<Rightarrow> database \<Rightarrow> string \<Rightarrow> jobject \<Rightarrow> database \<times> jobject" where
  "updateUser e d user_id updates =
     (if valid_role updates = None \<and> valid_is_active updates = None
      then (d, [(''success'', JBool False), (''message'', JStr ''Aucune modification valide'')])
      else (update_users e d (valid_role updates) (valid_is_active updates) user_id,
            [(''success'', JBool True),
             (''message'', JStr (''Utilisateur modifi'' @ e_acute @ '' avec succ'' @ e_grave @ ''s''))]))"

text \<open>
  \<open>DELETE FROM users WHERE id = ?\<close>. The rows of \<open>favorites\<close> and
  \<open>cart_items\<close> that reference a deleted user go with it only when the connection
  enforces foreign keys.
\<close>

definition delete_user :: "env \<Rightarrow> database \<Rightarrow> string \<Rightarrow> database" where
  "delete_user e d user_id =
     (case sql_integer e user_id of
        None \<Rightarrow> d
      | Some i \<Rightarrow>
          if foreign_keys d \<and> i \<in> set (map u_id (users d))
          then d\<lparr>users := filter (\<lambda>u. u_id u \<noteq> i) (users d),
                 favorites := filter (\<lambda>f. f_user_id f \<noteq> i) (favorites d),
                 cart_items := filter (\<lambda>c. c_user_id c \<noteq> i) (cart_items d)\<rparr>
          else d\<lparr>users := filter (\<lambda>u. u_id u \<noteq> i) (users d)\<rparr>)"

definition deleteUser :: "env \<Rightarrow> database \<Rightarrow> string \<Rightarrow> database \<times> jobject" where
  "deleteUser e d user_id =
     (delete_user e d user_id,
      [(''success'', JBool True),
       (''message'', JStr (''Utilisateur supprim'' @ e_acute @ '' avec succ'' @ e_grave @ ''s''))])"

text \<open>\<open>addProduct\<close>: a NULL name, brand or price violates NOT NULL and ends in the \<open>catch\<close>.\<close>

definition addProduct :: "env \<Rightarrow> database \<Rightarrow> jobject \<Rightarrow> database \<times> jobject" where
  "addProduct e d productData =
     (case (sql_text e (get_prop productData ''name''), sql_text e (get_prop productData ''brand''),
            sql_numeric e (get_prop productData ''price'')) of
        (Some name, Some brand, Some price) \<Rightarrow>
          (insert_product e (name, brand, sql_text e (get_prop productData ''description''), price,
                             sql_text e (get_prop productData ''image_emoji''),
                             sql_text e (get_prop productData ''sizes'')) d,
           [(''success'', JBool True),
            (''message'', JStr (''Produit ajout'' @ e_acute @ '' avec succ'' @ e_grave @ ''s''))])
      | _ \<Rightarrow> (d, [(''success'', JBool False), (''message'', JStr ''Erreur ajout produit'')]))"

definition getAllProducts :: "database \<Rightarrow> jobject" where
  "getAllProducts d =
     [(''success'', JBool True),
      (''products'', JArr (map (\<lambda>p. JObj (product_json p)) (rev (sort_key p_created_at (products d)))))]"

section \<open>parseInt\<close>

text \<open>
  The built-in \<open>parseInt\<close> with one argument: leading white space (the ASCII
  characters, U+00A0 and the three-byte sequences of the other Unicode spaces, the
  line separators and U+FEFF) is dropped, then
  a sign, then a \<open>0x\<close> or \<open>0X\<close> prefix (which makes the radix 16), and the longest
  run of digits is read; \<open>None\<close> is NaN. The value is exact here, as it is in
  JavaScript below \<open>2^53\<close>.
\<close>

definition space_sequences :: "string list" where
  "space_sequences =
     [[CHR 0xE1, CHR 0x9A, CHR 0x80], [CHR 0xE2, CHR 0x80, CHR 0xA8], [CHR 0xE2, CHR 0x80, CHR 0xA9],
      [CHR 0xE2, CHR 0x80, CHR 0xAF], [CHR 0xE2, CHR 0x81, CHR 0x9F], [CHR 0xE3, CHR 0x80, CHR 0x80],
      [CHR 0xEF, CHR 0xBB, CHR 0xBF]] @
     map (\<lambda>b. [CHR 0xE2, CHR 0x80, char_of (b::nat)]) [0x80 ..< 0x8B]"

definition ws_prefix :: "string \<Rightarrow> nat" where
  "ws_prefix s =
     (case s of
        [] \<Rightarrow> 0
      | c # cs \<Rightarrow>
          if c \<in> set [CHR 0x09, CHR 0x0A, CHR 0x0B, CHR 0x0C, CHR 0x0D, CHR 0x20] then 1
          else if take 2 s = [CHR 0xC2, CHR 0xA0] then 2
          else if take 3 s \<in> set space_sequences then 3
          else 0)"

function trim_start :: "string \<Rightarrow> string" where
  "trim_start s = (if ws_prefix s = 0 \<or> length s < ws_prefix s then s else trim_start (drop (ws_prefix s) s))"
  by pat_completeness auto
termination
  by (relation "measure length") auto

definition digit_value :: "char \<Rightarrow> nat option" where
  "digit_value c =
     (let n = (of_char c :: nat)
      in if 48 \<le> n \<and> n \<le> 57 then Some (n - 48)
         else if 97 \<le> n \<and> n \<le> 122 then Some (n - 87)
         else if 65 \<le> n \<and> n \<le> 90 then Some (n - 55)
         else None)"

definition is_digit :: "nat \<Rightarrow> char \<Rightarrow> bool" where
  "is_digit radix c = (case digit_value c of None \<Rightarrow> False | Some v \<Rightarrow> v < radix)"

definition digits_value :: "nat \<Rightarrow> string \<Rightarrow> nat" where
  "digits_value radix z = foldl (\<lambda>acc c. acc * radix + (case digit_value c of None \<Rightarrow> 0 | Some v \<Rightarrow> v)) 0 z"

definition parseInt :: "string \<Rightarrow> int option" where
  "parseInt string =
     (let s0 = trim_start string;
          sign = (if take 1 s0 = ''-'' then - 1 else 1 :: int);
          s1 = (if take 1 s0 = ''-'' \<or> take 1 s0 = ''+'' then drop 1 s0 else s0);
          hex = (take 2 s1 = ''0x'' \<or> take 2 s1 = ''0X'');
          radix = (if hex then 16 else 10);
          s2 = (if hex then drop 2 s1 else s1);
          z = takeWhile (is_digit radix) s2
      in if z = [] then None else Some (sign * int (digits_value radix z)))"

section \<open>Admin routes\<close>

text \<open>\<open>PUT /api/admin/users/:userId\<close>\<close>

definition put_admin_user :: "env \<Rightarrow> database \<Rightarrow> session \<Rightarrow> string \<Rightarrow> jobject \<Rightarrow> database \<times> response" where
  "put_admin_user e d s user_id reqBody =
     (case authenticateToken d s of
        Inl r \<Rightarrow> (d, r)
      | Inr user \<Rightarrow>
          (case requireAdmin user of
             Some r \<Rightarrow> (d, r)
           | None \<Rightarrow>
               if parseInt user_id = Some (u_id user)
               then (d, failure 400 ''Impossible de modifier son propre compte'')
               else (case updateUser e d user_id reqBody of (d', result) \<Rightarrow> (d', json_res 200 result))))"

text \<open>\<open>DELETE /api/admin/users/:userId\<close>\<close>

definition delete_admin_user :: "env \<Rightarrow> database \<Rightarrow> session \<Rightarrow> string \<Rightarrow> database \<times> response" where
  "delete_admin_user e d s user_id =
     (case authenticateToken d s of
        Inl r \<Rightarrow> (d, r)
      | Inr user \<Rightarrow>
          (case requireAdmin user of
             Some r \<Rightarrow> (d, r)
           | None \<Rightarrow>
               if parseInt user_id = Some (u_id user)
               then (d, failure 400 ''Impossible de supprimer son propre compte'')
               else (case deleteUser e d user_id of (d', result) \<Rightarrow> (d', json_res 200 result))))"

text \<open>The admin routes that only wrap a function of \<open>admin.js\<close>.\<close>

definition admin_only :: "database \<Rightarrow> session \<Rightarrow> jobject \<Rightarrow> response" where
  "admin_only d s result =
     (case authenticateToken d s of
        Inl r \<Rightarrow> r
      | Inr user \<Rightarrow> (case requireAdmin user of Some r \<Rightarrow> r | None \<Rightarrow> json_res 200 result))"

definition get_admin_users :: "database \<Rightarrow> session \<Rightarrow> response" where
  "get_admin_users d s = admin_only d s (getUsers d)"

definition get_admin_stats :: "database \<Rightarrow> session \<Rightarrow> response" where
  "get_admin_stats d s = admin_only d s (getStats d)"

definition get_admin_products :: "database \<Rightarrow> session \<Rightarrow> response" where
  "get_admin_products d s = admin_only d s (getAllProducts d)"

definition post_admin_product :: "env \<Rightarrow> database \<Rightarrow> session \<Rightarrow> jobject \<Rightarrow> database \<times> response" where
  "post_admin_product e d s reqBody =
     (case authenticateToken d s of
        Inl r \<Rightarrow> (d, r)
      | Inr user \<Rightarrow>
          (case requireAdmin user of
             Some r \<Rightarrow> (d, r)
           | None \<Rightarrow> (case addProduct e d reqBody of (d', result) \<Rightarrow> (d', json_res 200 result))))"


section \<open>CSRF protection\<close>

text \<open>
  The middleware \<open>csrf({ cookie: false })\<close> of csurf: it reads the secret from the
  session and stores a new one when there is none; a request whose method is not GET,
  HEAD or OPTIONS passes when the token it presents verifies against the secret, and
  otherwise ends in the error \<open>EBADCSRFTOKEN\<close>. The result is the session and
  whether the request passes.
\<close>

definition session_secret :: "env \<Rightarrow> session \<Rightarrow> string" where
  "session_secret e s = (case csrfSecret s of None \<Rightarrow> csrf_secret e | Some secret \<Rightarrow> secret)"

definition csrfProtection :: "env \<Rightarrow> string \<Rightarrow> string option \<Rightarrow> session \<Rightarrow> session \<times> bool" where
  "csrfProtection e method token s =
     (s\<lparr>csrfSecret := Some (session_secret e s)\<rparr>,
      method \<in> set [''GET'', ''HEAD'', ''OPTIONS''] \<or> csrf_verify e (session_secret e s) token)"

text \<open>The error middleware: \<open>EBADCSRFTOKEN\<close> becomes a 403.\<close>

definition csrf_rejected :: response where
  "csrf_rejected = failure 403 ''Token CSRF invalide''"


text \<open>
  \<open>app.use('/api', ...)\<close>: GET, HEAD and OPTIONS go on at once, every other method
  goes through \<open>csrfProtection\<close>. \<open>next\<close> is the rest of the chain, whatever the
  route is; the state it works on is the database and the session of the request.
\<close>

definition api_csrf ::
  "env \<Rightarrow> string \<Rightarrow> string option \<Rightarrow> (database \<times> session \<Rightarrow> (database \<times> session) \<times> response)
     \<Rightarrow> database \<times> session \<Rightarrow> (database \<times> session) \<times> response" where
  "api_csrf e method token next st =
     (case st of (d, s) \<Rightarrow>
        if method \<in> set [''GET'', ''HEAD'', ''OPTIONS''] then next (d, s)
        else (case csrfProtection e method token s of
                (s', ok) \<Rightarrow> if ok then next (d, s') else ((d, s'), csrf_rejected)))"

section \<open>Rate limiting\<close>

text \<open>
  The options the program passes to express-rate-limit. The store of a limiter keeps,
  for a key, the number of requests counted in the key's current window and the time,
  in milliseconds on the server's clock, at which that window ends. When a request
  arrives the middleware has the store count it: the store opens a new window when
  the key has none or the key's window has ended, and adds one. The middleware
  answers with status 429 and the configured message when the count is above
  \<open>max\<close>, and hands the request on otherwise; with
  \<open>skipSuccessfulRequests\<close> it takes the one back when the response that went out
  has a status below 400.
\<close>

record rate_limit_options =
  windowMs :: nat
  limit_max :: nat
  message :: jobject
  skipSuccessfulRequests :: bool

definition authLimiter :: rate_limit_options where
  "authLimiter =
     \<lparr>windowMs = 15 * 60 * 1000, limit_max = 10,
      message = [(''success'', JBool False),
                 (''message'', JStr (''Trop de tentatives de connexion. R'' @ e_acute @ ''essayez dans 15 minutes.''))],
      skipSuccessfulRequests = True\<rparr>"

definition apiLimiter :: rate_limit_options where
  "apiLimiter =
     \<lparr>windowMs = 15 * 60 * 1000, limit_max = 200,
      message = [(''success'', JBool False),
                 (''message'', JStr (''Trop de requ'' @ [CHR 0xC3, CHR 0xAA] @ ''tes. R'' @ e_acute @ ''essayez plus tard.''))],
      skipSuccessfulRequests = False\<rparr>"

definition truthy :: "json \<Rightarrow> bool" where
  "truthy v = (case v of JNull \<Rightarrow> False | JBool b \<Rightarrow> b | JNum n \<Rightarrow> n \<noteq> 0 | JStr s \<Rightarrow> s \<noteq> [] | _ \<Rightarrow> True)"

text \<open>
  \<open>keyGenerator\<close> of \<open>authLimiter\<close>: the address, a dash and \<open>req.body.email\<close>.
  The limiter runs before the validation chain of the route, so the email is the one
  the client sent.
\<close>

definition keyGenerator :: "env \<Rightarrow> string \<Rightarrow> jobject \<Rightarrow> string" where
  "keyGenerator e ip reqBody =
     (case get_prop reqBody ''email'' of
        None \<Rightarrow> ip @ ''-unknown''
      | Some email \<Rightarrow>
          if truthy email
          then ip @ ''-'' @ (case email of JStr t \<Rightarrow> t | _ \<Rightarrow> toString e email)
          else ip @ ''-unknown'')"

text \<open>
  The store: for each key \<open>(totalHits, resetTime)\<close>; a key the store does not hold
  is \<open>(0, 0)\<close>. \<open>increment\<close> and \<open>decrement\<close> are the store's two operations.
\<close>

type_synonym store = "string \<Rightarrow> nat \<times> nat"

definition increment :: "env \<Rightarrow> rate_limit_options \<Rightarrow> store \<Rightarrow> string \<Rightarrow> nat \<Rightarrow> store" where
  "increment e opts hits key clock =
     (case hits key of
        (totalHits, resetTime) \<Rightarrow>
          if resetTime \<le> clock
          then hits(key := (1, window_end e (windowMs opts) clock))
          else hits(key := (totalHits + 1, resetTime)))"

definition decrement :: "store \<Rightarrow> string \<Rightarrow> store" where
  "decrement hits key =
     (case hits key of (totalHits, resetTime) \<Rightarrow> hits(key := (totalHits - 1, resetTime)))"

text \<open>Whether the limiter hands on a request of the key that arrives at time \<open>clock\<close>.\<close>

definition admits :: "env \<Rightarrow> rate_limit_options \<Rightarrow> store \<Rightarrow> string \<Rightarrow> nat \<Rightarrow> bool" where
  "admits e opts hits key clock \<longleftrightarrow> \<not> (fst (increment e opts hits key clock key) > limit_max opts)"

definition rateLimit ::
  "env \<Rightarrow> rate_limit_options \<Rightarrow> string \<Rightarrow> nat \<Rightarrow> ('a \<Rightarrow> 'a \<times> response) \<Rightarrow> store \<times> 'a
     \<Rightarrow> (store \<times> 'a) \<times> response" where
  "rateLimit e opts key clock next st =
     (case st of (hits, inner) \<Rightarrow>
        if \<not> admits e opts hits key clock
        then ((increment e opts hits key clock, inner), \<lparr>status = 429, body = JObj (message opts)\<rparr>)
        else (case next inner of
                (inner', res) \<Rightarrow>
                  if skipSuccessfulRequests opts \<and> status res < 400
                  then ((decrement (increment e opts hits key clock) key, inner'), res)
                  else ((increment e opts hits key clock, inner'), res)))"

text \<open>
  The chain in front of the two auth routes, in the order of registration:
  \<open>authLimiter\<close>, \<open>apiLimiter\<close> (keyed by the address), the CSRF check, the route.
  \<open>clock\<close> is the time at which the request arrives.
\<close>

type_synonym server = "store \<times> store \<times> database \<times> session"

definition login_behind_limiter ::
  "env \<Rightarrow> string \<Rightarrow> string option \<Rightarrow> nat \<Rightarrow> jobject \<Rightarrow> store \<times> database \<times> session
     \<Rightarrow> (store \<times> database \<times> session) \<times> response" where
  "login_behind_limiter e ip token clock reqBody =
     rateLimit e apiLimiter ip clock
       (api_csrf e ''POST'' token
          (\<lambda>(d, s). case login e d s reqBody of (s', r) \<Rightarrow> ((d, s'), r)))"

definition post_login ::
  "env \<Rightarrow> string \<Rightarrow> string option \<Rightarrow> nat \<Rightarrow> jobject \<Rightarrow> server \<Rightarrow> server \<times> response" where
  "post_login e ip token clock reqBody =
     rateLimit e authLimiter (keyGenerator e ip reqBody) clock
       (login_behind_limiter e ip token clock reqBody)"

definition post_register ::
  "env \<Rightarrow> string \<Rightarrow> string option \<Rightarrow> nat \<Rightarrow> jobject \<Rightarrow> server \<Rightarrow> server \<times> response" where
  "post_register e ip token clock reqBody =
     rateLimit e authLimiter (keyGenerator e ip reqBody) clock
       (rateLimit e apiLimiter ip clock
          (api_csrf e ''POST'' token (\<lambda>st. register e st reqBody)))"






section \<open>Observations used in the statements\<close>

text \<open>The rows of a user and a product in the two dependent tables, and the rest of the favorites.\<close>

definition favorite_rows :: "database \<Rightarrow> int \<Rightarrow> int \<Rightarrow> favorite_row list" where
  "favorite_rows d uid pid = filter (\<lambda>f. f_user_id f = uid \<and> f_product_id f = pid) (favorites d)"

definition other_favorites :: "database \<Rightarrow> int \<Rightarrow> int \<Rightarrow> favorite_row list" where
  "other_favorites d uid pid = filter (\<lambda>f. \<not> (f_user_id f = uid \<and> f_product_id f = pid)) (favorites d)"

definition cart_rows :: "database \<Rightarrow> int \<Rightarrow> int \<Rightarrow> cart_row list" where
  "cart_rows d uid pid = filter (\<lambda>c. c_user_id c = uid \<and> c_product_id c = pid) (cart_items d)"

text \<open>The pairs the favorites table holds, and a property of a response body.\<close>

definition favorite_pairs :: "database \<Rightarrow> (int \<times> int) set" where
  "favorite_pairs d = set (map (\<lambda>f. (f_user_id f, f_product_id f)) (favorites d))"

definition res_prop :: "response \<Rightarrow> string \<Rightarrow> json option" where
  "res_prop r k = (case body r of JObj kvs \<Rightarrow> get_prop kvs k | _ \<Rightarrow> None)"

definition isFavorite :: "response \<Rightarrow> json option" where
  "isFavorite r = (case body r of JObj kvs \<Rightarrow> get_prop kvs ''isFavorite'' | _ \<Rightarrow> None)"

text \<open>
  The constraints the schema puts on \<open>favorites\<close>: \<open>id\<close> is the primary key,
  \<open>(user_id, product_id)\<close> is unique, and an AUTOINCREMENT id is never above the
  table's counter.
\<close>

definition favorites_schema :: "database \<Rightarrow> bool" where
  "favorites_schema d \<longleftrightarrow>
     distinct (map f_id (favorites d)) \<and>
     distinct (map (\<lambda>f. (f_user_id f, f_product_id f)) (favorites d)) \<and>
     list_all (\<lambda>f. f_id f \<le> favorites_seq d) (favorites d)"

text \<open>Every row of the cart has a quantity of at least 1.\<close>

definition quantities_positive :: "database \<Rightarrow> bool" where
  "quantities_positive d \<longleftrightarrow> list_all (\<lambda>c. 1 \<le> c_quantity c) (cart_items d)"





text \<open>The database with every stored password hash replaced.\<close>

definition scrub :: "(user_row \<Rightarrow> string) \<Rightarrow> database \<Rightarrow> database" where
  "scrub f d = d\<lparr>users := map (\<lambda>u. u\<lparr>u_password := f u\<rparr>) (users d)\<rparr>"

text \<open>The database after the insert of a favorite and of a cart row with quantity 1.\<close>

definition favorite_added :: "env \<Rightarrow> database \<Rightarrow> int \<Rightarrow> int \<Rightarrow> database" where
  "favorite_added e d uid pid =
     d\<lparr>favorites := favorites d @
          [\<lparr>f_id = favorites_seq d + 1, f_user_id = uid, f_product_id = pid, f_created_at = now e\<rparr>],
       favorites_seq := favorites_seq d + 1\<rparr>"


text \<open>The response of the registration once the row is inserted.\<close>

definition registered :: "database \<Rightarrow> response" where
  "registered d' =
     (case map_option user_json (user_by_id d' (users_seq d')) of
        None \<Rightarrow> failure 500 (''Erreur cr'' @ e_acute @ ''ation compte'')
      | Some j \<Rightarrow>
          json_res 200 [(''success'', JBool True),
                        (''message'', JStr (''Compte cr'' @ e_acute @ e_acute @ '' avec succ'' @ e_grave @ ''s'')),
                        (''user'', j)])"

text \<open>The decimal numeral of an integer, as JavaScript prints it.\<close>

fun decimal_nat :: "nat \<Rightarrow> string" where
  "decimal_nat n = (if n < 10 then [char_of (48 + n)] else decimal_nat (n div 10) @ [char_of (48 + n mod 10)])"

definition decimal :: "int \<Rightarrow> string" where
  "decimal i = (if i < 0 then ''-'' @ decimal_nat (nat (- i)) else decimal_nat (nat i))"

section \<open>Runs of requests\<close>

text \<open>
  The routes that write, as one client calls them one after the other; the session
  goes from each request to the next.
\<close>

datatype request =
    Register jobject | Login jobject | Logout
  | ToggleFavorite string | AddToCart string | RemoveFromCart string
  | UpdateUser string jobject | DeleteUser string | AddProduct jobject

fun handle :: "env \<Rightarrow> database \<times> session \<Rightarrow> request \<Rightarrow> (database \<times> session) \<times> response" where
  "handle e (d, s) (Register b) = register e (d, s) b"
| "handle e (d, s) (Login b) = (case login e d s b of (s', r) \<Rightarrow> ((d, s'), r))"
| "handle e (d, s) Logout = (case logout s of (s', r) \<Rightarrow> ((d, s'), r))"
| "handle e (d, s) (ToggleFavorite n) = (case post_favorite e d s n of (d', r) \<Rightarrow> ((d', s), r))"
| "handle e (d, s) (AddToCart n) = (case post_cart e d s n of (d', r) \<Rightarrow> ((d', s), r))"
| "handle e (d, s) (RemoveFromCart n) = (case delete_cart e d s n of (d', r) \<Rightarrow> ((d', s), r))"
| "handle e (d, s) (UpdateUser i b) = (case put_admin_user e d s i b of (d', r) \<Rightarrow> ((d', s), r))"
| "handle e (d, s) (DeleteUser i) = (case delete_admin_user e d s i of (d', r) \<Rightarrow> ((d', s), r))"
| "handle e (d, s) (AddProduct b) = (case post_admin_product e d s b of (d', r) \<Rightarrow> ((d', s), r))"

fun run :: "env \<Rightarrow> database \<times> session \<Rightarrow> request list \<Rightarrow> database \<times> session" where
  "run e st [] = st"
| "run e st (r # rs) = run e (fst (handle e st r)) rs"

section \<open>Examples\<close>

text \<open>
  A world and a database for concrete runs. In this world a window of a limiter ends
  \<open>windowMs\<close> after the request that opens it, and SQLite reads the texts
  \<open>'1'\<close> and \<open>'10e-1'\<close> as the number 1 when it compares them with an
  INTEGER column.
\<close>

definition example_env :: env where
  "example_env =
     \<lparr>now = ''2024-05-01 10:00:00'',
      bcrypt_hash = (\<lambda>v. case v of Some (JStr s) \<Rightarrow> Some (''$2a$12$'' @ s) | _ \<Rightarrow> None),
      bcrypt_compare = (\<lambda>v h. case v of Some (JStr s) \<Rightarrow> Some (h = ''$2a$12$'' @ s) | _ \<Rightarrow> None),
      validate_register = (\<lambda>b. ([], b)),
      validate_login = (\<lambda>b. ([], b)),
      sql_text = (\<lambda>v. case v of Some (JStr s) \<Rightarrow> Some s | _ \<Rightarrow> None),
      sql_numeric = (\<lambda>v. case v of Some (JNum n) \<Rightarrow> Some (JNum n) | _ \<Rightarrow> None),
      sql_integer = (\<lambda>s. if s = ''1'' \<or> s = ''10e-1'' then Some 1 else if s = ''2'' then Some 2 else None),
      toString = (\<lambda>v. ''[object Object]''),
      csrf_secret = ''s3cr3t'',
      csrf_create = (\<lambda>secret. ''salt-'' @ secret),
      csrf_verify = (\<lambda>secret token. token = Some (''salt-'' @ secret)),
      window_end = (\<lambda>w t. t + w)\<rparr>"

definition example_db :: database where
  "example_db =
     \<lparr>users =
        [\<lparr>u_id = 1, u_email = ''admin@sneakzone.com'', u_password = ''$2a$12$#Adm1nSneakZone97!'',
          u_first_name = ''Admin'', u_last_name = ''SneakZone'', u_role = ''admin'',
          u_is_active = True, u_created_at = ''2024-05-01 10:00:00''\<rparr>,
         \<lparr>u_id = 2, u_email = ''u1@example.com'', u_password = ''$2a$12$password1'',
          u_first_name = ''Jane'', u_last_name = ''Doe'', u_role = ''user'',
          u_is_active = True, u_created_at = ''2024-05-01 10:00:00''\<rparr>],
      products =
        [\<lparr>p_id = 1, p_name = ''Air Max 90'', p_brand = ''NIKE'', p_description = Some ''Triple White'',
          p_price = JNum 129, p_image_emoji = None, p_sizes = Some ''37-47'',
          p_created_at = ''2024-05-01 10:00:00''\<rparr>],
      favorites = [], cart_items = [],
      users_seq = 2, products_seq = 1, favorites_seq = 0, cart_items_seq = 0,
      foreign_keys = False\<rparr>"

text \<open>The rows of the example database by name, and the database \<open>initDatabase\<close> leaves in the example world.\<close>

definition admin_row :: user_row where
  "admin_row =
     \<lparr>u_id = 1, u_email = ''admin@sneakzone.com'', u_password = ''$2a$12$#Adm1nSneakZone97!'',
      u_first_name = ''Admin'', u_last_name = ''SneakZone'', u_role = ''admin'',
      u_is_active = True, u_created_at = ''2024-05-01 10:00:00''\<rparr>"

definition jane_row :: user_row where
  "jane_row =
     \<lparr>u_id = 2, u_email = ''u1@example.com'', u_password = ''$2a$12$password1'',
      u_first_name = ''Jane'', u_last_name = ''Doe'', u_role = ''user'',
      u_is_active = True, u_created_at = ''2024-05-01 10:00:00''\<rparr>"

definition air_max :: product_row where
  "air_max =
     \<lparr>p_id = 1, p_name = ''Air Max 90'', p_brand = ''NIKE'', p_description = Some ''Triple White'',
      p_price = JNum 129, p_image_emoji = None, p_sizes = Some ''37-47'',
      p_created_at = ''2024-05-01 10:00:00''\<rparr>"

definition seeded_db :: database where
  "seeded_db =
     \<lparr>users = [admin_row],
      products =
        [\<lparr>p_id = 1, p_name = ''Air Jordan 1 Retro High'', p_brand = ''NIKE'',
          p_description = Some ''Chicago - Rouge/Blanc/Noir'', p_price = JNum 179,
          p_image_emoji = Some [CHR 0xF0, CHR 0x9F, CHR 0x91, CHR 0x9F], p_sizes = Some ''38-46'',
          p_created_at = ''2024-05-01 10:00:00''\<rparr>,
         \<lparr>p_id = 2, p_name = ''Yeezy Boost 350 V2'', p_brand = ''ADIDAS'',
          p_description = Some ''Zebra - Blanc/Noir'', p_price = JNum 249,
          p_image_emoji = Some [CHR 0xF0, CHR 0x9F, CHR 0x8F, CHR 0x83], p_sizes = Some ''36-45'',
          p_created_at = ''2024-05-01 10:00:00''\<rparr>,
         \<lparr>p_id = 3, p_name = ''Air Max 90'', p_brand = ''NIKE'',
          p_description = Some ''Triple White'', p_price = JNum 129,
          p_image_emoji = Some [CHR 0xE2, CHR 0x9A, CHR 0xA1], p_sizes = Some ''37-47'',
          p_created_at = ''2024-05-01 10:00:00''\<rparr>],
      favorites = [], cart_items = [], users_seq = 1, products_seq = 3,
      favorites_seq = 0, cart_items_seq = 0, foreign_keys = False\<rparr>"

definition example_session :: session where
  "example_session = \<lparr>userId = Some 2, csrfSecret = None\<rparr>"

definition admin_session :: session where
  "admin_session = \<lparr>userId = Some 1, csrfSecret = None\<rparr>"


definition visitor_session :: session where
  "visitor_session = \<lparr>userId = None, csrfSecret = Some ''s3cr3t''\<rparr>"

definition jane_login :: jobject where
  "jane_login = [(''email'', JStr ''u1@example.com''), (''password'', JStr ''password1'')]"

definition jane_wrong :: jobject where
  "jane_wrong = [(''email'', JStr ''u1@example.com''), (''password'', JStr ''guess'')]"

definition jane :: jobject where
  "jane = [(''email'', JStr ''u1@example.com''), (''password'', JStr ''password1''),
           (''firstName'', JStr ''Jane''), (''lastName'', JStr ''Doe'')]"

definition admin_login :: jobject where
  "admin_login = [(''email'', JStr ''admin@sneakzone.com''), (''password'', JStr ''#Adm1nSneakZone97!'')]"

definition orphan_trace :: "request list" where
  "orphan_trace =
     [Register jane, ToggleFavorite ''Air Max 90'', AddToCart ''Air Max 90'', Logout,
      Login admin_login, DeleteUser ''2'']"

text \<open>
  Login bodies whose password is a JSON number, for a known and for an unknown email.
\<close>

definition jane_number :: jobject where
  "jane_number = [(''email'', JStr ''u1@example.com''), (''password'', JNum 12345678)]"

definition nobody_number :: jobject where
  "nobody_number = [(''email'', JStr ''nobody@example.com''), (''password'', JNum 12345678)]"

text \<open>
  A product whose name holds a percent sign, added by the admin, and a run that
  leaves a database with that product and a session logged in as a new user.
\<close>

definition coton :: jobject where
  "coton = [(''name'', JStr ''100% coton''), (''brand'', JStr ''MAISON''), (''price'', JNum 25)]"

definition coton_trace :: "request list" where
  "coton_trace = [Login admin_login, AddProduct coton, Logout, Register jane]"

definition coton_state :: "database \<times> session" where
  "coton_state = run example_env (seeded_db, \<lparr>userId = None, csrfSecret = None\<rparr>) coton_trace"





section \<open>Favorites toggle\<close>

lemma distinct_map_eqD:
  "distinct (map g xs) \<Longrightarrow> x \<in> set xs \<Longrightarrow> y \<in> set xs \<Longrightarrow> g x = g y \<Longrightarrow> x = y"
  by (auto simp: distinct_map dest: inj_onD)

lemma authenticated_user:
  assumes "authenticateToken d s = Inr u"
  shows "u \<in> set (users d)" and "userId s = Some (u_id u)" and "u_is_active u"
  using assms
  by (auto simp: authenticateToken_def user_by_id_def find_Some_iff split: option.splits if_splits)

lemma product_by_name_mem: "product_by_name d n = Some p \<Longrightarrow> p \<in> set (products d) \<and> p_name p = n"
  by (auto simp: product_by_name_def find_Some_iff)

lemma favorite_of_None: "favorite_of d uid pid = None \<longleftrightarrow> favorite_rows d uid pid = []"
  by (auto simp: favorite_of_def favorite_rows_def find_None_iff filter_empty_conv)

lemma favorite_of_Some:
  "favorite_of d uid pid = Some f \<Longrightarrow> f \<in> set (favorites d) \<and> f_user_id f = uid \<and> f_product_id f = pid"
  by (auto simp: favorite_of_def find_Some_iff)

lemma delete_favorite_rows:
  assumes "favorites_schema d" and "favorite_of d uid pid = Some f"
  shows "favorites (delete_favorite d (f_id f)) = other_favorites d uid pid"
proof -
  from assms(2) have f: "f \<in> set (favorites d)" "f_user_id f = uid" "f_product_id f = pid"
    by (simp_all add: favorite_of_Some)
  from assms(1) have ids: "distinct (map f_id (favorites d))"
    and pairs: "distinct (map (\<lambda>f. (f_user_id f, f_product_id f)) (favorites d))"
    by (simp_all add: favorites_schema_def)
  have "(f_id x \<noteq> f_id f) = (\<not> (f_user_id x = uid \<and> f_product_id x = pid))"
    if "x \<in> set (favorites d)" for x
    using distinct_map_eqD[OF ids that f(1)] distinct_map_eqD[OF pairs that f(1)] f(2,3)
    by auto
  then show ?thesis
    by (auto simp: delete_favorite_def other_favorites_def intro: filter_cong)
qed

lemma toggle_absent:
  assumes "authenticateToken d s = Inr u" and "decodeURIComponent key = Some name"
    and "product_by_name d name = Some p" and "favorite_rows d (u_id u) (p_id p) = []"
  shows "post_favorite e d s key =
    (favorite_added e d (u_id u) (p_id p),
     json_res 200 [(''success'', JBool True),
                   (''message'', JStr (''Produit ajout'' @ e_acute @ '' aux favoris'')),
                   (''isFavorite'', JBool True)])"
proof -
  have "u \<in> set (users d)" using assms(1) by (rule authenticated_user)
  moreover have "p \<in> set (products d)" using assms(3) by (simp add: product_by_name_mem)
  moreover have "(u_id u, p_id p) \<notin> set (map (\<lambda>f. (f_user_id f, f_product_id f)) (favorites d))"
    using assms(4) by (auto simp: favorite_rows_def filter_empty_conv)
  ultimately have "insert_favorite e d (u_id u) (p_id p) = Some (favorite_added e d (u_id u) (p_id p))"
    by (simp add: insert_favorite_def may_insert_def favorite_added_def)
  moreover have "favorite_of d (u_id u) (p_id p) = None"
    using assms(4) by (simp add: favorite_of_None)
  ultimately show ?thesis
    using assms(1-3) by (simp add: post_favorite_def favorites_toggle_def)
qed

lemma toggle_present:
  assumes "authenticateToken d s = Inr u" and "decodeURIComponent key = Some name"
    and "product_by_name d name = Some p" and "favorite_of d (u_id u) (p_id p) = Some f"
  shows "post_favorite e d s key =
    (delete_favorite d (f_id f),
     json_res 200 [(''success'', JBool True),
                   (''message'', JStr (''Produit retir'' @ e_acute @ '' des favoris'')),
                   (''isFavorite'', JBool False)])"
  using assms by (simp add: post_favorite_def favorites_toggle_def)

lemma favorite_rows_cases:
  "favorite_rows d uid pid \<noteq> [] \<Longrightarrow> \<exists>f. favorite_of d uid pid = Some f"
  using favorite_of_None[of d uid pid] by (cases "favorite_of d uid pid") auto

lemma favorites_schema_added:
  assumes "favorites_schema d" and "favorite_rows d uid pid = []"
  shows "favorites_schema (favorite_added e d uid pid)"
proof -
  from assms(1) have le: "\<forall>f\<in>set (favorites d). f_id f \<le> favorites_seq d"
    by (simp add: favorites_schema_def list_all_iff)
  then have "favorites_seq d + 1 \<notin> f_id ` set (favorites d)" by force
  moreover have "(uid, pid) \<notin> (\<lambda>f. (f_user_id f, f_product_id f)) ` set (favorites d)"
    using assms(2) by (auto simp: favorite_rows_def filter_empty_conv)
  moreover have "\<forall>f\<in>set (favorites d). f_id f \<le> favorites_seq d + 1" using le by force
  ultimately show ?thesis
    using assms(1) by (simp add: favorites_schema_def favorite_added_def list_all_iff)
qed

lemma favorites_schema_deleted:
  "favorites_schema d \<Longrightarrow> favorites_schema (delete_favorite d fid)"
  by (simp add: favorites_schema_def delete_favorite_def distinct_map_filter list_all_iff)

lemma authenticateToken_users:
  "users d' = users d \<Longrightarrow> authenticateToken d' s = authenticateToken d s"
  by (simp add: authenticateToken_def user_by_id_def split: option.splits)

lemma product_by_name_products:
  "products d' = products d \<Longrightarrow> product_by_name d' n = product_by_name d n"
  by (simp add: product_by_name_def)

lemma find_append_None: "find P xs = None \<Longrightarrow> find P (xs @ ys) = find P ys"
  by (induction xs) (auto split: if_splits)

lemma added_then_removed:
  assumes "favorites_schema d" and "favorite_rows d uid pid = []"
  shows "favorite_of (favorite_added e d uid pid) uid pid =
           Some \<lparr>f_id = favorites_seq d + 1, f_user_id = uid, f_product_id = pid, f_created_at = now e\<rparr>"
    and "favorites (delete_favorite (favorite_added e d uid pid) (favorites_seq d + 1)) = favorites d"
proof -
  from assms(2) have none: "\<forall>f\<in>set (favorites d). \<not> (f_user_id f = uid \<and> f_product_id f = pid)"
    by (auto simp: favorite_rows_def filter_empty_conv)
  then have "find (\<lambda>f. f_user_id f = uid \<and> f_product_id f = pid) (favorites d) = None"
    by (simp add: find_None_iff)
  then show "favorite_of (favorite_added e d uid pid) uid pid =
           Some \<lparr>f_id = favorites_seq d + 1, f_user_id = uid, f_product_id = pid, f_created_at = now e\<rparr>"
    by (simp add: favorite_of_def favorite_added_def find_append_None)
  from assms(1) have "\<forall>f\<in>set (favorites d). f_id f \<noteq> favorites_seq d + 1"
    by (force simp: favorites_schema_def list_all_iff)
  then show "favorites (delete_favorite (favorite_added e d uid pid) (favorites_seq d + 1)) = favorites d"
    by (simp add: delete_favorite_def favorite_added_def filter_id_conv)
qed

lemma other_favorites_added:
  "other_favorites (favorite_added e d uid pid) uid pid = other_favorites d uid pid"
  by (simp add: other_favorites_def favorite_added_def)

lemma favorite_rows_added:
  "favorite_rows d uid pid = [] \<Longrightarrow>
   favorite_rows (favorite_added e d uid pid) uid pid =
     [\<lparr>f_id = favorites_seq d + 1, f_user_id = uid, f_product_id = pid, f_created_at = now e\<rparr>]"
  by (simp add: favorite_rows_def favorite_added_def)

lemma favorite_rows_other: "favorite_rows (d\<lparr>favorites := other_favorites d uid pid\<rparr>) uid pid = []"
  by (simp add: favorite_rows_def other_favorites_def)

lemma favorite_pairs_split:
  "favorite_pairs d = (\<lambda>f. (f_user_id f, f_product_id f)) ` set (other_favorites d uid pid) \<union>
     (if favorite_rows d uid pid = [] then {} else {(uid, pid)})"
  by (auto simp: favorite_pairs_def other_favorites_def favorite_rows_def filter_empty_conv)

text \<open>
  The toggle for a key that the handler's \<open>decodeURIComponent\<close> accepts. For
  an authenticated user \<open>u\<close> and a key that decodes to \<open>name\<close>: when no
  product has that name the toggle answers 404 and changes nothing; when it resolves
  to the product \<open>p\<close>, the toggle deletes the row of \<open>(u, p)\<close> and reports
  \<open>isFavorite = false\<close> if there is one, and inserts it and reports
  \<open>isFavorite = true\<close> if there is none, touching no other row and no other
  table. Two toggles in a row give back the pairs the table held; started without a
  row of \<open>(u, p)\<close>, they give back the rows of the table as they were (the
  AUTOINCREMENT counter has moved on), the second toggle reports
  \<open>isFavorite = false\<close> and the number of rows of \<open>(u, p)\<close> is 0 again. The
  database is any that meets the constraints of the favorites table, as every
  database does that a run of requests leads to (\<open>reachable_favorites_schema\<close>).
\<close>

theorem post_favorite_toggles:
  assumes "favorites_schema d" and "authenticateToken d s = Inr u"
    and "decodeURIComponent key = Some name"
  shows "(product_by_name d name = None \<longrightarrow>
            post_favorite e d s key = (d, failure 404 (''Produit non trouv'' @ e_acute))) \<and>
         (\<forall>p. product_by_name d name = Some p \<longrightarrow>
            (let (d1, r1) = post_favorite e d s key; (d2, r2) = post_favorite e d1 s key in
               status r1 = 200 \<and> status r2 = 200 \<and>
               users d1 = users d \<and> products d1 = products d \<and> cart_items d1 = cart_items d \<and>
               other_favorites d1 (u_id u) (p_id p) = other_favorites d (u_id u) (p_id p) \<and>
               favorite_pairs d2 = favorite_pairs d \<and>
               (favorite_rows d (u_id u) (p_id p) \<noteq> [] \<longrightarrow>
                  favorite_rows d1 (u_id u) (p_id p) = [] \<and> isFavorite r1 = Some (JBool False)) \<and>
               (favorite_rows d (u_id u) (p_id p) = [] \<longrightarrow>
                  length (favorite_rows d1 (u_id u) (p_id p)) = 1 \<and> isFavorite r1 = Some (JBool True) \<and>
                  favorite_rows d2 (u_id u) (p_id p) = [] \<and> isFavorite r2 = Some (JBool False) \<and>
                  favorites d2 = favorites d)))"
proof (intro conjI impI allI)
  assume "product_by_name d name = None"
  then show "post_favorite e d s key = (d, failure 404 (''Produit non trouv'' @ e_acute))"
    using assms(2,3) by (simp add: post_favorite_def favorites_toggle_def produit_non_trouve_def)
next
  fix p assume p: "product_by_name d name = Some p"
  let ?uid = "u_id u" and ?pid = "p_id p"
  let ?added = "json_res 200 [(''success'', JBool True),
                   (''message'', JStr (''Produit ajout'' @ e_acute @ '' aux favoris'')),
                   (''isFavorite'', JBool True)]"
  let ?removed = "json_res 200 [(''success'', JBool True),
                   (''message'', JStr (''Produit retir'' @ e_acute @ '' des favoris'')),
                   (''isFavorite'', JBool False)]"
  have obs: "status ?added = 200" "status ?removed = 200"
    "isFavorite ?added = Some (JBool True)" "isFavorite ?removed = Some (JBool False)"
    by (simp_all add: json_res_def isFavorite_def get_prop_def)
  show "let (d1, r1) = post_favorite e d s key; (d2, r2) = post_favorite e d1 s key in
               status r1 = 200 \<and> status r2 = 200 \<and>
               users d1 = users d \<and> products d1 = products d \<and> cart_items d1 = cart_items d \<and>
               other_favorites d1 (u_id u) (p_id p) = other_favorites d (u_id u) (p_id p) \<and>
               favorite_pairs d2 = favorite_pairs d \<and>
               (favorite_rows d (u_id u) (p_id p) \<noteq> [] \<longrightarrow>
                  favorite_rows d1 (u_id u) (p_id p) = [] \<and> isFavorite r1 = Some (JBool False)) \<and>
               (favorite_rows d (u_id u) (p_id p) = [] \<longrightarrow>
                  length (favorite_rows d1 (u_id u) (p_id p)) = 1 \<and> isFavorite r1 = Some (JBool True) \<and>
                  favorite_rows d2 (u_id u) (p_id p) = [] \<and> isFavorite r2 = Some (JBool False) \<and>
                  favorites d2 = favorites d)"
  proof (cases "favorite_rows d ?uid ?pid = []")
    case True
    let ?d1 = "favorite_added e d ?uid ?pid"
    let ?new = "\<lparr>f_id = favorites_seq d + 1, f_user_id = ?uid, f_product_id = ?pid, f_created_at = now e\<rparr>"
    have step1: "post_favorite e d s key = (?d1, ?added)"
      using assms(2,3) p True by (rule toggle_absent)
    have frame: "users ?d1 = users d" "products ?d1 = products d" "cart_items ?d1 = cart_items d"
      by (simp_all add: favorite_added_def)
    have auth1: "authenticateToken ?d1 s = Inr u"
      using assms(2) authenticateToken_users[OF frame(1)] by simp
    have p1: "product_by_name ?d1 name = Some p"
      using p product_by_name_products[OF frame(2)] by simp
    have found: "favorite_of ?d1 ?uid ?pid = Some ?new"
      and restored: "favorites (delete_favorite ?d1 (favorites_seq d + 1)) = favorites d"
      using added_then_removed[OF assms(1) True] by simp_all
    have step2: "post_favorite e ?d1 s key = (delete_favorite ?d1 (f_id ?new), ?removed)"
      using auth1 assms(3) p1 found by (rule toggle_present)
    have rows2: "favorite_rows (delete_favorite ?d1 (favorites_seq d + 1)) ?uid ?pid = []"
      using restored True by (simp add: favorite_rows_def)
    have pairs2: "favorite_pairs (delete_favorite ?d1 (favorites_seq d + 1)) = favorite_pairs d"
      using restored by (simp add: favorite_pairs_def)
    have rows1: "length (favorite_rows ?d1 ?uid ?pid) = 1"
      using True by (simp add: favorite_rows_added)
    have other1: "other_favorites ?d1 ?uid ?pid = other_favorites d ?uid ?pid"
      by (rule other_favorites_added)
    have new: "f_id ?new = favorites_seq d + 1" by simp
    show ?thesis
      unfolding step1 step2 Let_def prod.case new
      using True obs frame restored rows1 rows2 other1 pairs2 by blast
  next
    case False
    then obtain f where f: "favorite_of d ?uid ?pid = Some f"
      using favorite_rows_cases by blast
    let ?d1 = "delete_favorite d (f_id f)"
    have step1: "post_favorite e d s key = (?d1, ?removed)"
      using assms(2,3) p f by (rule toggle_present)
    have fav1: "favorites ?d1 = other_favorites d ?uid ?pid"
      using assms(1) f by (rule delete_favorite_rows)
    have frame: "users ?d1 = users d" "products ?d1 = products d" "cart_items ?d1 = cart_items d"
      by (simp_all add: delete_favorite_def)
    have rows1: "favorite_rows ?d1 ?uid ?pid = []"
      using fav1 by (simp add: favorite_rows_def other_favorites_def)
    have other1: "other_favorites ?d1 ?uid ?pid = other_favorites d ?uid ?pid"
      using fav1 by (simp add: other_favorites_def)
    have auth1: "authenticateToken ?d1 s = Inr u"
      using assms(2) authenticateToken_users[OF frame(1)] by simp
    have p1: "product_by_name ?d1 name = Some p"
      using p product_by_name_products[OF frame(2)] by simp
    let ?d2 = "favorite_added e ?d1 ?uid ?pid"
    have step2: "post_favorite e ?d1 s key = (?d2, ?added)"
      using auth1 assms(3) p1 rows1 by (rule toggle_absent)
    have "favorite_pairs ?d2 =
        (\<lambda>f. (f_user_id f, f_product_id f)) ` set (other_favorites ?d2 ?uid ?pid) \<union> {(?uid, ?pid)}"
      using favorite_pairs_split[of ?d2 ?uid ?pid] favorite_rows_added[OF rows1, of e] by simp
    also have "other_favorites ?d2 ?uid ?pid = other_favorites d ?uid ?pid"
      using other1 by (simp add: other_favorites_added)
    finally have pairs2: "favorite_pairs ?d2 = favorite_pairs d"
      using favorite_pairs_split[of d ?uid ?pid] False by simp
    show ?thesis
      unfolding step1 step2 Let_def prod.case
      using False obs frame rows1 other1 pairs2 by blast
  qed
qed

text \<open>The toggle on the example database: the user has no favorite yet.\<close>

theorem post_favorite_toggles_witness:
  "favorites_schema example_db \<and>
   decodeURIComponent ''Air Max 90'' = Some ''Air Max 90'' \<and>
   authenticateToken example_db example_session = Inr jane_row \<and>
   product_by_name example_db ''Air Max 90'' = Some air_max \<and>
   favorite_rows example_db (u_id jane_row) (p_id air_max) = [] \<and>
   favorites (fst (post_favorite example_env
                     (fst (post_favorite example_env example_db example_session ''Air Max 90''))
                     example_session ''Air Max 90'')) = favorites example_db \<and>
   isFavorite (snd (post_favorite example_env example_db example_session ''Air Max 90'')) = Some (JBool True)"
proof -
  have h1: "favorites_schema example_db"
    by (simp add: favorites_schema_def example_db_def)
  have h2: "authenticateToken example_db example_session = Inr jane_row"
    by (simp add: authenticateToken_def user_by_id_def example_db_def example_session_def jane_row_def)
  have h3: "decodeURIComponent ''Air Max 90'' = Some ''Air Max 90''"
    by (simp add: decodeURIComponent_def)
  have h4: "product_by_name example_db ''Air Max 90'' = Some air_max"
    by (simp add: product_by_name_def example_db_def air_max_def)
  have h5: "favorite_rows example_db (u_id jane_row) (p_id air_max) = []"
    by (simp add: favorite_rows_def example_db_def)
  from post_favorite_toggles[OF h1 h2 h3] h4 h5
  have "favorites (fst (post_favorite example_env
                     (fst (post_favorite example_env example_db example_session ''Air Max 90''))
                     example_session ''Air Max 90'')) = favorites example_db \<and>
        isFavorite (snd (post_favorite example_env example_db example_session ''Air Max 90'')) = Some (JBool True)"
    by (simp add: Let_def split_beta)
  with h1 h2 h3 h4 h5 show ?thesis by blast
qed

section \<open>The favorites constraints on every run\<close>

text \<open>
  The constraints on \<open>favorites\<close> hold after \<open>initDatabase\<close> and every route
  keeps them, so they hold wherever a run of requests can lead.
\<close>

lemma insert_favorite_schema:
  assumes "favorites_schema d" and "insert_favorite e d uid pid = Some d'"
  shows "favorites_schema d'"
proof -
  from assms(2) have new: "(uid, pid) \<notin> set (map (\<lambda>f. (f_user_id f, f_product_id f)) (favorites d))"
    and d': "d' = favorite_added e d uid pid"
    by (auto simp: insert_favorite_def may_insert_def favorite_added_def split: if_splits)
  from new have "favorite_rows d uid pid = []"
    by (auto simp: favorite_rows_def filter_empty_conv)
  with assms(1) show ?thesis unfolding d' by (rule favorites_schema_added)
qed

lemma post_favorite_schema:
  "favorites_schema d \<Longrightarrow> favorites_schema (fst (post_favorite e d s n))"
  by (simp add: post_favorite_def favorites_toggle_def favorites_schema_deleted
      insert_favorite_schema split: sum.splits option.splits)

lemma favorites_kept:
  "favorites d' = favorites d \<and> favorites_seq d' = favorites_seq d \<Longrightarrow>
   favorites_schema d \<Longrightarrow> favorites_schema d'"
  by (simp add: favorites_schema_def)

lemma register_favorites:
  "favorites (fst (fst (register e (d, s) b))) = favorites d \<and>
   favorites_seq (fst (fst (register e (d, s) b))) = favorites_seq d"
proof -
  have "insert_user e d em h fn ln r = Some d' \<Longrightarrow>
        favorites d' = favorites d \<and> favorites_seq d' = favorites_seq d" for em h fn ln r d'
    by (auto simp: insert_user_def split: if_splits)
  then show ?thesis
    by (simp add: register_def split_beta split: option.splits)
qed

lemma post_cart_favorites:
  "favorites (fst (post_cart e d s n)) = favorites d \<and>
   favorites_seq (fst (post_cart e d s n)) = favorites_seq d"
  by (simp add: post_cart_def cart_add_def increment_cart_item_def insert_cart_item_def
      split: sum.splits option.splits)

lemma delete_cart_favorites:
  "favorites (fst (delete_cart e d s n)) = favorites d \<and>
   favorites_seq (fst (delete_cart e d s n)) = favorites_seq d"
  by (simp add: delete_cart_def cart_remove_def delete_cart_item_def
      split: sum.splits option.splits)

lemma put_admin_user_favorites:
  "favorites (fst (put_admin_user e d s i b)) = favorites d \<and>
   favorites_seq (fst (put_admin_user e d s i b)) = favorites_seq d"
  by (simp add: put_admin_user_def updateUser_def update_users_def
      split: sum.splits option.splits)

lemma post_admin_product_favorites:
  "favorites (fst (post_admin_product e d s b)) = favorites d \<and>
   favorites_seq (fst (post_admin_product e d s b)) = favorites_seq d"
  by (simp add: post_admin_product_def addProduct_def insert_product_def
      split: sum.splits option.splits)

lemma delete_admin_user_schema:
  "favorites_schema d \<Longrightarrow> favorites_schema (fst (delete_admin_user e d s i))"
  by (auto simp: delete_admin_user_def deleteUser_def delete_user_def favorites_schema_def
      distinct_map_filter list_all_iff
      split: sum.splits option.splits if_splits)

lemma handle_favorites_schema:
  "favorites_schema (fst st) \<Longrightarrow> favorites_schema (fst (fst (handle e st r)))"
proof (cases st)
  case (Pair d s)
  assume "favorites_schema (fst st)"
  with Pair have q: "favorites_schema d" by simp
  have "favorites_schema (fst (fst (handle e (d, s) r)))"
  proof (cases r)
    case (Register b)
    show ?thesis unfolding Register handle.simps by (rule favorites_kept[OF register_favorites q])
  next
    case (Login b)
    show ?thesis unfolding Login using q by (simp add: split_beta)
  next
    case Logout
    show ?thesis unfolding Logout using q by (simp add: split_beta)
  next
    case (ToggleFavorite n)
    show ?thesis unfolding ToggleFavorite using post_favorite_schema[OF q, of e s n] by (simp add: split_beta)
  next
    case (AddToCart n)
    show ?thesis
      unfolding AddToCart using favorites_kept[OF post_cart_favorites q, of e s n] by (simp add: split_beta)
  next
    case (RemoveFromCart n)
    show ?thesis
      unfolding RemoveFromCart using favorites_kept[OF delete_cart_favorites q, of e s n]
      by (simp add: split_beta)
  next
    case (UpdateUser i b)
    show ?thesis
      unfolding UpdateUser using favorites_kept[OF put_admin_user_favorites q, of e s i b]
      by (simp add: split_beta)
  next
    case (DeleteUser i)
    show ?thesis
      unfolding DeleteUser using delete_admin_user_schema[OF q, of e s i] by (simp add: split_beta)
  next
    case (AddProduct b)
    show ?thesis
      unfolding AddProduct using favorites_kept[OF post_admin_product_favorites q, of e s b]
      by (simp add: split_beta)
  qed
  with Pair show ?thesis by simp
qed

lemma run_favorites_schema:
  "favorites_schema (fst st) \<Longrightarrow> favorites_schema (fst (run e st rs))"
  by (induction rs arbitrary: st) (simp_all add: handle_favorites_schema)

lemma reachable_favorites_schema:
  assumes "initDatabase e db = Some d0"
  shows "favorites_schema (fst (run e (d0, s) rs))"
proof -
  have "favorites (fold (insert_product e) ps d) = favorites d \<and>
        favorites_seq (fold (insert_product e) ps d) = favorites_seq d" for ps d
    by (induction ps arbitrary: d) (simp_all add: insert_product_def split_beta)
  with assms have "favorites_schema d0"
    by (auto simp: initDatabase_def favorites_schema_def db_def insert_user_def
        split: option.splits if_splits)
  then show ?thesis using run_favorites_schema[of "(d0, s)" e rs] by simp
qed

section \<open>Cart add and remove\<close>




lemma cart_rows_single:
  "cart_rows d uid pid = [c] \<Longrightarrow> c_user_id c = uid \<and> c_product_id c = pid"
proof -
  assume "cart_rows d uid pid = [c]"
  then have "c \<in> set (filter (\<lambda>c. c_user_id c = uid \<and> c_product_id c = pid) (cart_items d))"
    by (simp add: cart_rows_def)
  then show ?thesis by simp
qed











lemma delete_cart_found:
  assumes "authenticateToken d s = Inr u" and "decodeURIComponent key = Some name"
    and "product_by_name d name = Some p"
  shows "delete_cart e d s key =
     (delete_cart_item d (u_id u) (p_id p),
      json_res 200 [(''success'', JBool True),
                    (''message'', JStr (''Produit retir'' @ e_acute @ '' du panier''))])"
  using assms by (simp add: delete_cart_def cart_remove_def)

lemma cart_rows_deleted: "cart_rows (delete_cart_item d uid pid) uid pid = []"
  by (simp add: cart_rows_def delete_cart_item_def)


lemma example_auth:
  "authenticateToken example_db example_session =
     Inr \<lparr>u_id = 2, u_email = ''u1@example.com'', u_password = ''$2a$12$password1'',
          u_first_name = ''Jane'', u_last_name = ''Doe'', u_role = ''user'',
          u_is_active = True, u_created_at = ''2024-05-01 10:00:00''\<rparr>"
  by (simp add: authenticateToken_def user_by_id_def example_db_def example_session_def)

lemma example_product:
  "product_by_name example_db ''Air Max 90'' =
     Some \<lparr>p_id = 1, p_name = ''Air Max 90'', p_brand = ''NIKE'', p_description = Some ''Triple White'',
          p_price = JNum 129, p_image_emoji = None, p_sizes = Some ''37-47'',
          p_created_at = ''2024-05-01 10:00:00''\<rparr>"
  by (simp add: product_by_name_def example_db_def)

lemma example_decode: "decodeURIComponent ''Air Max 90'' = Some ''Air Max 90''"
  by (simp add: decodeURIComponent_def)


text \<open>
  The remove for a key that the handler's \<open>decodeURIComponent\<close> accepts. For an
  authenticated user \<open>u\<close> and a key that decodes to \<open>name\<close>: when the
  name resolves to a product \<open>p\<close>, the remove answers 200 with \<open>success = true\<close>
  and leaves no row of \<open>(u, p)\<close>, and when there was no such row the database is
  unchanged; the remove fails exactly when no product has the name, and then with
  404 and an unchanged database.
\<close>

theorem cart_remove_absent:
  assumes "authenticateToken d s = Inr u" and "decodeURIComponent key = Some name"
  shows "(\<forall>p. product_by_name d name = Some p \<longrightarrow>
            status (snd (delete_cart e d s key)) = 200 \<and>
            res_prop (snd (delete_cart e d s key)) ''success'' = Some (JBool True) \<and>
            cart_rows (fst (delete_cart e d s key)) (u_id u) (p_id p) = [] \<and>
            (cart_rows d (u_id u) (p_id p) = [] \<longrightarrow> fst (delete_cart e d s key) = d)) \<and>
         (product_by_name d name = None \<longrightarrow>
            delete_cart e d s key = (d, failure 404 (''Produit non trouv'' @ e_acute))) \<and>
         (res_prop (snd (delete_cart e d s key)) ''success'' \<noteq> Some (JBool True) \<longleftrightarrow>
            product_by_name d name = None) \<and>
         (status (snd (delete_cart e d s key)) \<noteq> 200 \<longleftrightarrow>
            status (snd (delete_cart e d s key)) = 404 \<and> product_by_name d name = None)"
proof (cases "product_by_name d name")
  case None
  then have "delete_cart e d s key = (d, failure 404 (''Produit non trouv'' @ e_acute))"
    using assms by (simp add: delete_cart_def cart_remove_def produit_non_trouve_def)
  then show ?thesis
    using None by (simp add: failure_def json_res_def res_prop_def get_prop_def)
next
  case (Some p)
  have r: "delete_cart e d s key =
     (delete_cart_item d (u_id u) (p_id p),
      json_res 200 [(''success'', JBool True),
                    (''message'', JStr (''Produit retir'' @ e_acute @ '' du panier''))])"
    using assms Some by (rule delete_cart_found)
  have same: "delete_cart_item d (u_id u) (p_id p) = d" if "cart_rows d (u_id u) (p_id p) = []"
  proof -
    from that have "filter (\<lambda>c. \<not> (c_user_id c = u_id u \<and> c_product_id c = p_id p)) (cart_items d) = cart_items d"
      by (auto simp: cart_rows_def filter_empty_conv filter_id_conv)
    then show ?thesis by (simp add: delete_cart_item_def)
  qed
  show ?thesis
    using Some r same
    by (simp add: json_res_def res_prop_def get_prop_def cart_rows_deleted)
qed

text \<open>A remove on the example database, whose cart is empty.\<close>

theorem cart_remove_absent_witness:
  "cart_rows example_db 2 1 = [] \<and>
   delete_cart example_env example_db example_session ''Air Max 90'' =
     (example_db, json_res 200 [(''success'', JBool True),
                    (''message'', JStr (''Produit retir'' @ e_acute @ '' du panier''))])"
proof -
  have h: "cart_rows example_db 2 1 = []"
    by (simp add: cart_rows_def example_db_def)
  have r: "snd (delete_cart example_env example_db example_session ''Air Max 90'') =
      json_res 200 [(''success'', JBool True),
                    (''message'', JStr (''Produit retir'' @ e_acute @ '' du panier''))]"
    using example_auth example_decode example_product by (simp add: delete_cart_def cart_remove_def)
  have "fst (delete_cart example_env example_db example_session ''Air Max 90'') = example_db"
    using cart_remove_absent[OF example_auth example_decode, THEN conjunct1, rule_format, OF example_product]
      h by simp
  with h r show ?thesis by (simp add: prod_eq_iff)
qed

section \<open>Login\<close>

text \<open>
  Two login requests that pass validation, sent to the same database: the first
  names the email of an active user and a password that bcrypt compares as different
  from the stored hash, the second names an email no user has. Both are answered
  with status 401 and the same body, the message being
  \<open>Email ou mot de passe incorrect\<close>, and neither changes the session.
\<close>

theorem login_failures_alike:
  assumes "validate_login e req1 = ([], b1)" and "validate_login e req2 = ([], b2)"
    and "user_by_email e d (get_prop b1 ''email'') = Some u" and "u_is_active u"
    and "bcrypt_compare e (get_prop b1 ''password'') (u_password u) = Some False"
    and "user_by_email e d (get_prop b2 ''email'') = None"
  shows "snd (login e d s1 req1) = snd (login e d s2 req2) \<and>
         login e d s1 req1 = (s1, failure 401 ''Email ou mot de passe incorrect'') \<and>
         login e d s2 req2 = (s2, failure 401 ''Email ou mot de passe incorrect'') \<and>
         status (snd (login e d s1 req1)) = 401 \<and>
         res_prop (snd (login e d s1 req1)) ''message'' = Some (JStr ''Email ou mot de passe incorrect'')"
proof -
  have 1: "login e d s1 req1 = (s1, failure 401 ''Email ou mot de passe incorrect'')"
    using assms(1,3,4,5) by (simp add: login_def handleValidationErrors_def)
  have 2: "login e d s2 req2 = (s2, failure 401 ''Email ou mot de passe incorrect'')"
    using assms(2,6) by (simp add: login_def handleValidationErrors_def)
  show ?thesis
    unfolding 1 2 by (simp add: failure_def json_res_def res_prop_def get_prop_def)
qed

text \<open>On the example database: a wrong password for Jane, and an unknown email.\<close>

theorem login_failures_alike_witness:
  "login example_env example_db \<lparr>userId = None, csrfSecret = None\<rparr>
     [(''email'', JStr ''u1@example.com''), (''password'', JStr ''wrong'')] =
     (\<lparr>userId = None, csrfSecret = None\<rparr>, failure 401 ''Email ou mot de passe incorrect'') \<and>
   login example_env example_db \<lparr>userId = None, csrfSecret = None\<rparr>
     [(''email'', JStr ''nobody@example.com''), (''password'', JStr ''password1'')] =
     (\<lparr>userId = None, csrfSecret = None\<rparr>, failure 401 ''Email ou mot de passe incorrect'')"
proof -
  let ?b1 = "[(''email'', JStr ''u1@example.com''), (''password'', JStr ''wrong'')]"
  let ?b2 = "[(''email'', JStr ''nobody@example.com''), (''password'', JStr ''password1'')]"
  let ?u = "\<lparr>u_id = 2, u_email = ''u1@example.com'', u_password = ''$2a$12$password1'',
          u_first_name = ''Jane'', u_last_name = ''Doe'', u_role = ''user'',
          u_is_active = True, u_created_at = ''2024-05-01 10:00:00''\<rparr>"
  have v1: "validate_login example_env ?b1 = ([], ?b1)" and v2: "validate_login example_env ?b2 = ([], ?b2)"
    by (simp_all add: example_env_def)
  have u: "user_by_email example_env example_db (get_prop ?b1 ''email'') = Some ?u"
    by (simp add: user_by_email_def example_env_def example_db_def get_prop_def)
  have a: "u_is_active ?u" by simp
  have c: "bcrypt_compare example_env (get_prop ?b1 ''password'') (u_password ?u) = Some False"
    by (simp add: example_env_def get_prop_def)
  have n: "user_by_email example_env example_db (get_prop ?b2 ''email'') = None"
    by (simp add: user_by_email_def example_env_def example_db_def get_prop_def)
  from login_failures_alike[OF v1 v2 u a c n] show ?thesis by blast
qed

text \<open>
  A password that \<open>bcrypt.compare\<close> throws on ends the login of an active user
  in the \<open>catch\<close> of the handler.
\<close>

lemma compare_throws:
  assumes "validate_login e reqBody = ([], b)" and "user_by_email e d (get_prop b ''email'') = Some u"
    and "u_is_active u" and "bcrypt_compare e (get_prop b ''password'') (u_password u) = None"
  shows "login e d s reqBody = (s, failure 500 ''Erreur connexion'')"
  using assms by (simp add: login_def handleValidationErrors_def)

text \<open>
  C3 fails in the code for a password that is a JSON number. The validation chain
  asks of the password only that it is not empty, so the number reaches the handler.
  With the email of an active user the handler calls \<open>bcrypt.compare\<close>, which
  throws on a password that is no string, and the \<open>catch\<close> answers 500 with
  \<open>Erreur connexion\<close>; with an email no user has, the handler answers 401 with
  the generic message before it compares anything. The password matches the stored
  hash in neither case, and the two answers tell whether the email is registered.
\<close>

theorem login_number_password:
  "login example_env example_db visitor_session jane_number =
     (visitor_session, failure 500 ''Erreur connexion'') \<and>
   login example_env example_db visitor_session nobody_number =
     (visitor_session, failure 401 ''Email ou mot de passe incorrect'') \<and>
   status (snd (login example_env example_db visitor_session jane_number)) = 500 \<and>
   status (snd (login example_env example_db visitor_session nobody_number)) = 401"
  by (simp add: login_def handleValidationErrors_def user_by_email_def get_prop_def
      example_env_def example_db_def jane_number_def nobody_number_def failure_def json_res_def)


section \<open>The guard on the own account\<close>

declare decimal_nat.simps [simp del]

lemma digit_value_decimal: "k < 10 \<Longrightarrow> digit_value (char_of (48 + k)) = Some k"
  by (simp add: digit_value_def Let_def)

lemma decimal_nat_digits: "c \<in> set (decimal_nat n) \<Longrightarrow> \<exists>k::nat. k < 10 \<and> c = char_of (48 + k)"
proof (induction n rule: decimal_nat.induct)
  case (1 n)
  show ?case
  proof (cases "n < 10")
    case True
    with "1.prems" show ?thesis by (auto simp: decimal_nat.simps[of n])
  next
    case False
    with "1.prems" have "c \<in> set (decimal_nat (n div 10)) \<or> c = char_of (48 + n mod 10)"
      by (auto simp: decimal_nat.simps[of n])
    then show ?thesis
    proof
      assume "c \<in> set (decimal_nat (n div 10))"
      with False "1.IH" show ?thesis by simp
    next
      assume "c = char_of (48 + n mod 10)"
      moreover have "n mod 10 < 10" by simp
      ultimately show ?thesis by blast
    qed
  qed
qed

lemma decimal_nat_not_Nil: "decimal_nat n \<noteq> []"
  by (subst decimal_nat.simps) simp

lemma digits_value_snoc:
  "digits_value r (z @ [c]) = digits_value r z * r + (case digit_value c of None \<Rightarrow> 0 | Some v \<Rightarrow> v)"
  by (simp add: digits_value_def)

lemma digits_value_decimal: "digits_value 10 (decimal_nat n) = n"
proof (induction n rule: decimal_nat.induct)
  case (1 n)
  show ?case
  proof (cases "n < 10")
    case True
    then show ?thesis
      by (simp add: decimal_nat.simps[of n] digits_value_def digit_value_decimal)
  next
    case False
    have "n mod 10 < 10" by simp
    then have "digit_value (char_of (48 + n mod 10)) = Some (n mod 10)"
      by (rule digit_value_decimal)
    with False "1.IH" show ?thesis
      by (simp add: decimal_nat.simps[of n] digits_value_snoc)
  qed
qed

lemma decimal_nat_hd: "\<exists>k::nat. k < 10 \<and> (\<exists>cs. decimal_nat n = char_of (48 + k) # cs)"
proof -
  obtain c cs where cs: "decimal_nat n = c # cs"
    using decimal_nat_not_Nil[of n] by (cases "decimal_nat n") auto
  then have "c \<in> set (decimal_nat n)" by simp
  then obtain k :: nat where "k < 10" "c = char_of (48 + k)"
    using decimal_nat_digits by blast
  with cs show ?thesis by blast
qed

lemma of_char_decimal: "k < 10 \<Longrightarrow> (of_char (char_of (48 + (k::nat))) :: nat) = 48 + k"
  by simp

lemma ws_prefix_ascii:
  assumes "(of_char c :: nat) < 128" and "c \<notin> set [CHR 0x09, CHR 0x0A, CHR 0x0B, CHR 0x0C, CHR 0x0D, CHR 0x20]"
  shows "ws_prefix (c # cs) = 0"
proof -
  have "c \<noteq> CHR 0xC2" "c \<noteq> CHR 0xE1" "c \<noteq> CHR 0xE2" "c \<noteq> CHR 0xE3" "c \<noteq> CHR 0xEF"
    using assms(1) by auto
  then have "take 2 (c # cs) \<noteq> [CHR 0xC2, CHR 0xA0]"
    and "take 3 (c # cs) \<notin> set space_sequences"
    by (auto simp: space_sequences_def)
  with assms(2) show ?thesis
    unfolding ws_prefix_def by simp
qed

lemma trim_start_ascii:
  assumes "(of_char c :: nat) < 128" and "c \<notin> set [CHR 0x09, CHR 0x0A, CHR 0x0B, CHR 0x0C, CHR 0x0D, CHR 0x20]"
  shows "trim_start (c # cs) = c # cs"
  using ws_prefix_ascii[OF assms] by (subst trim_start.simps) simp

lemma parseInt_digits:
  assumes "z \<noteq> []" and "\<forall>c\<in>set z. \<exists>k::nat. k < 10 \<and> c = char_of (48 + k)"
  shows "parseInt z = Some (int (digits_value 10 z))"
    and "parseInt (CHR ''-'' # z) = Some (- int (digits_value 10 z))"
proof -
  obtain c cs where z: "z = c # cs" using assms(1) by (cases z) auto
  then obtain k :: nat where k: "k < 10" "c = char_of (48 + k)" using assms(2) by auto
  have c: "(of_char c :: nat) = 48 + k" using k by simp
  have all: "\<forall>c\<in>set z. is_digit 10 c"
    using assms(2) by (auto simp: is_digit_def digit_value_decimal)
  then have tw: "takeWhile (is_digit 10) z = z" by (simp add: takeWhile_eq_all_conv)
  have t: "trim_start z = z"
    unfolding z using c k(1) by (intro trim_start_ascii) auto
  have nosign: "take 1 z \<noteq> ''-''" "take 1 z \<noteq> ''+''"
    unfolding z using c k(1) by auto
  have nohex: "take 2 z \<noteq> ''0x''" "take 2 z \<noteq> ''0X''"
  proof -
    have "c' \<noteq> CHR ''x'' \<and> c' \<noteq> CHR ''X''" if "c' \<in> set z" for c'
    proof -
      from that assms(2) obtain j :: nat where "j < 10" "c' = char_of (48 + j)" by auto
      then have "(of_char c' :: nat) = 48 + j" by simp
      with \<open>j < 10\<close> show ?thesis by auto
    qed
    then show "take 2 z \<noteq> ''0x''" "take 2 z \<noteq> ''0X''"
      unfolding z by (cases cs; auto)+
  qed
  show "parseInt z = Some (int (digits_value 10 z))"
    using nosign nohex assms(1) by (simp add: parseInt_def Let_def t tw del: trim_start.simps)
  have t': "trim_start (CHR ''-'' # z) = CHR ''-'' # z"
    by (intro trim_start_ascii) auto
  show "parseInt (CHR ''-'' # z) = Some (- int (digits_value 10 z))"
    using nohex assms(1) by (simp add: parseInt_def Let_def t' tw del: trim_start.simps)
qed

lemma parseInt_decimal: "parseInt (decimal i) = Some i"
proof -
  have d: "\<forall>c\<in>set (decimal_nat n). \<exists>k::nat. k < 10 \<and> c = char_of (48 + k)" for n
    using decimal_nat_digits by blast
  show ?thesis
    using parseInt_digits[OF decimal_nat_not_Nil d]
    by (simp add: decimal_def digits_value_decimal)
qed

text \<open>
  An authenticated administrator \<open>a\<close> who sends the update or the delete route
  a \<open>userId\<close> that is the decimal numeral of the own id (or any other text that
  \<open>parseInt\<close> reads as that id) is answered with status 400 and the message of the
  route, and the database that comes back is the database as it was: neither
  \<open>updateUser\<close> nor \<open>deleteUser\<close> is reached.
\<close>

theorem admin_self_guard:
  assumes "authenticateToken d s = Inr a" and "u_role a = ''admin''"
    and "user_id = decimal (u_id a) \<or> parseInt user_id = Some (u_id a)"
  shows "put_admin_user e d s user_id reqBody =
           (d, failure 400 ''Impossible de modifier son propre compte'') \<and>
         delete_admin_user e d s user_id =
           (d, failure 400 ''Impossible de supprimer son propre compte'') \<and>
         status (snd (put_admin_user e d s user_id reqBody)) = 400 \<and>
         status (snd (delete_admin_user e d s user_id)) = 400"
proof -
  have "parseInt user_id = Some (u_id a)"
    using assms(3) parseInt_decimal by auto
  then show ?thesis
    using assms(1,2)
    by (simp add: put_admin_user_def delete_admin_user_def requireAdmin_def failure_def json_res_def)
qed

text \<open>The administrator of the example database on the own id 1.\<close>

theorem admin_self_guard_witness:
  "put_admin_user example_env example_db admin_session ''1'' [(''role'', JStr ''user'')] =
     (example_db, failure 400 ''Impossible de modifier son propre compte'') \<and>
   delete_admin_user example_env example_db admin_session ''1'' =
     (example_db, failure 400 ''Impossible de supprimer son propre compte'')"
proof -
  let ?a = "\<lparr>u_id = 1, u_email = ''admin@sneakzone.com'', u_password = ''$2a$12$#Adm1nSneakZone97!'',
          u_first_name = ''Admin'', u_last_name = ''SneakZone'', u_role = ''admin'',
          u_is_active = True, u_created_at = ''2024-05-01 10:00:00''\<rparr>"
  have a: "authenticateToken example_db admin_session = Inr ?a"
    by (simp add: authenticateToken_def user_by_id_def example_db_def admin_session_def)
  have r: "u_role ?a = ''admin''" by simp
  have "decimal 1 = ''1''" by code_simp
  then have "decimal (u_id ?a) = ''1''" by simp
  then have i: "''1'' = decimal (u_id ?a) \<or> parseInt ''1'' = Some (u_id ?a)" by simp
  from admin_self_guard[OF a r i] show ?thesis by blast
qed

text \<open>
  The guard compares \<open>parseInt(userId)\<close> with the id of the administrator, and
  the statements of \<open>admin.js\<close> hand the text of \<open>userId\<close> to SQLite. A text
  that \<open>parseInt\<close> reads as another number than SQLite does passes the guard and
  reaches the row of the administrator.
\<close>

lemma guard_passed:
  assumes "authenticateToken d s = Inr a" and "u_role a = ''admin''"
    and "parseInt user_id \<noteq> Some (u_id a)" and "sql_integer e user_id = Some (u_id a)"
  shows "delete_admin_user e d s user_id =
           (delete_user e d user_id,
            json_res 200 [(''success'', JBool True),
                          (''message'', JStr (''Utilisateur supprim'' @ e_acute @ '' avec succ'' @ e_grave @ ''s''))])"
    and "u_id a \<notin> set (map u_id (users (fst (delete_admin_user e d s user_id))))"
    and "put_admin_user e d s user_id reqBody = (case updateUser e d user_id reqBody of (d', result) \<Rightarrow> (d', json_res 200 result))"
  using assms
  by (auto simp: delete_admin_user_def put_admin_user_def requireAdmin_def deleteUser_def delete_user_def)

lemma parseInt_10e_1: "parseInt ''10e-1'' = Some 10"
  by (simp add: parseInt_def Let_def is_digit_def digit_value_def digits_value_def
      ws_prefix_def space_sequences_def)

text \<open>
  C4 fails in the code for the \<open>userId\<close> \<open>10e-1\<close>, sent by the administrator
  with id 1. \<open>parseInt\<close> reads 10, which is not 1, so the guard lets the request
  through; SQLite compares the text with the INTEGER column as the number 1. The
  delete is answered 200 and the row of the administrator is gone; the update is
  answered 200 and the administrator is a deactivated user.
\<close>

theorem admin_own_account:
  "authenticateToken example_db admin_session = Inr admin_row \<and>
   parseInt ''10e-1'' = Some 10 \<and>
   sql_integer example_env ''10e-1'' = Some (u_id admin_row) \<and>
   status (snd (delete_admin_user example_env example_db admin_session ''10e-1'')) = 200 \<and>
   users (fst (delete_admin_user example_env example_db admin_session ''10e-1'')) = [jane_row] \<and>
   status (snd (put_admin_user example_env example_db admin_session ''10e-1''
                  [(''role'', JStr ''user''), (''is_active'', JBool False)])) = 200 \<and>
   users (fst (put_admin_user example_env example_db admin_session ''10e-1''
                  [(''role'', JStr ''user''), (''is_active'', JBool False)])) =
     [admin_row\<lparr>u_role := ''user'', u_is_active := False\<rparr>, jane_row]"
proof -
  have a: "authenticateToken example_db admin_session = Inr admin_row"
    by (simp add: authenticateToken_def user_by_id_def example_db_def admin_session_def admin_row_def)
  have s: "sql_integer example_env ''10e-1'' = Some (u_id admin_row)"
    by (simp add: example_env_def admin_row_def)
  have r: "u_role admin_row = ''admin''" by (simp add: admin_row_def)
  have p: "parseInt ''10e-1'' \<noteq> Some (u_id admin_row)"
    using parseInt_10e_1 by (simp add: admin_row_def)
  have d: "delete_admin_user example_env example_db admin_session ''10e-1'' =
           (delete_user example_env example_db ''10e-1'',
            json_res 200 [(''success'', JBool True),
                          (''message'', JStr (''Utilisateur supprim'' @ e_acute @ '' avec succ'' @ e_grave @ ''s''))])"
    using a r p s by (rule guard_passed(1))
  have u: "put_admin_user example_env example_db admin_session ''10e-1''
                  [(''role'', JStr ''user''), (''is_active'', JBool False)] =
           (case updateUser example_env example_db ''10e-1'' [(''role'', JStr ''user''), (''is_active'', JBool False)]
            of (d', result) \<Rightarrow> (d', json_res 200 result))"
    using a r p s by (rule guard_passed(3))
  have du: "users (delete_user example_env example_db ''10e-1'') = [jane_row]"
    by (simp add: delete_user_def example_env_def example_db_def jane_row_def)
  have uu: "users (fst (updateUser example_env example_db ''10e-1'' [(''role'', JStr ''user''), (''is_active'', JBool False)])) =
      [admin_row\<lparr>u_role := ''user'', u_is_active := False\<rparr>, jane_row]"
    by (simp add: updateUser_def update_users_def valid_role_def valid_is_active_def set_columns_def
        get_prop_def example_env_def example_db_def jane_row_def admin_row_def Let_def)
  show ?thesis
    using a parseInt_10e_1 s
    unfolding d u by (simp add: du uu json_res_def split_beta)
qed


section \<open>updateUser\<close>

lemma valid_role_iff:
  "valid_role updates = Some r \<longleftrightarrow>
     get_prop updates ''role'' = Some (JStr r) \<and> (r = ''user'' \<or> r = ''admin'')"
  by (auto simp: valid_role_def split: option.splits json.splits if_splits)

lemma valid_is_active_iff:
  "valid_is_active updates = Some b \<longleftrightarrow> get_prop updates ''is_active'' = Some (JBool b)"
  by (auto simp: valid_is_active_def split: option.splits json.splits)

lemma set_columns_fields:
  "u_id (set_columns r b u) = u_id u" "u_email (set_columns r b u) = u_email u"
  "u_password (set_columns r b u) = u_password u" "u_first_name (set_columns r b u) = u_first_name u"
  "u_last_name (set_columns r b u) = u_last_name u" "u_created_at (set_columns r b u) = u_created_at u"
  "u_role (set_columns r b u) = (case r of None \<Rightarrow> u_role u | Some x \<Rightarrow> x)"
  "u_is_active (set_columns r b u) = (case b of None \<Rightarrow> u_is_active u | Some x \<Rightarrow> x)"
  by (simp_all add: set_columns_def Let_def split: option.splits)

lemma set_columns_eq:
  "set_columns r b u =
     u\<lparr>u_role := (case r of None \<Rightarrow> u_role u | Some x \<Rightarrow> x),
       u_is_active := (case b of None \<Rightarrow> u_is_active u | Some x \<Rightarrow> x)\<rparr>"
  by (simp add: set_columns_def Let_def split: option.splits)

lemma updateUser_none:
  "valid_role updates = None \<and> valid_is_active updates = None \<Longrightarrow>
   updateUser e d user_id updates =
     (d, [(''success'', JBool False), (''message'', JStr ''Aucune modification valide'')])"
  by (simp add: updateUser_def)

lemma updateUser_some:
  "valid_role updates \<noteq> None \<or> valid_is_active updates \<noteq> None \<Longrightarrow>
   get_prop (snd (updateUser e d user_id updates)) ''success'' = Some (JBool True)"
  by (auto simp: updateUser_def get_prop_def)

lemma updateUser_users:
  "users (fst (updateUser e d user_id updates)) =
     map (\<lambda>u. if sql_integer e user_id = Some (u_id u)
              then u\<lparr>u_role := (case valid_role updates of None \<Rightarrow> u_role u | Some r \<Rightarrow> r),
                     u_is_active := (case valid_is_active updates of None \<Rightarrow> u_is_active u | Some b \<Rightarrow> b)\<rparr>
              else u) (users d)"
proof (cases "valid_role updates = None \<and> valid_is_active updates = None")
  case True
  have "map (\<lambda>u. if sql_integer e user_id = Some (u_id u)
                 then u\<lparr>u_role := u_role u, u_is_active := u_is_active u\<rparr> else u) (users d) = users d"
    by (rule map_idI) simp
  with True show ?thesis by (simp add: updateUser_def cong: if_cong)
next
  case False
  then show ?thesis by (auto simp: updateUser_def update_users_def set_columns_eq)
qed

lemma updateUser_frame:
  "fst (updateUser e d user_id updates) = d\<lparr>users := users (fst (updateUser e d user_id updates))\<rparr>"
  by (simp add: updateUser_def update_users_def)

lemma updateUser_other_fields:
  "get_prop updates' ''role'' = get_prop updates ''role'' \<and>
   get_prop updates' ''is_active'' = get_prop updates ''is_active'' \<Longrightarrow>
   updateUser e d user_id updates' = updateUser e d user_id updates"
  by (simp add: updateUser_def valid_role_def valid_is_active_def)

text \<open>
  C5. \<open>updateUser\<close> on any body: the rows the id operand selects get the body's
  \<open>role\<close> when that is the string \<open>'user'\<close> or \<open>'admin'\<close> and the body's
  \<open>is_active\<close> when that is a boolean, every other column of every row and every
  other table stay as they are, and a body that agrees with this one on the two
  properties gives the same result, whatever else it holds. When neither property
  is present and valid the result is \<open>success = false\<close> with the message
  \<open>Aucune modification valide\<close> and the database is the one that went in.
\<close>

theorem updateUser_whitelist:
  "(valid_role updates = None \<and> valid_is_active updates = None \<longrightarrow>
      updateUser e d user_id updates =
        (d, [(''success'', JBool False), (''message'', JStr ''Aucune modification valide'')])) \<and>
   (valid_role updates \<noteq> None \<or> valid_is_active updates \<noteq> None \<longrightarrow>
      get_prop (snd (updateUser e d user_id updates)) ''success'' = Some (JBool True)) \<and>
   users (fst (updateUser e d user_id updates)) =
     map (\<lambda>u. if sql_integer e user_id = Some (u_id u)
              then u\<lparr>u_role := (case valid_role updates of None \<Rightarrow> u_role u | Some r \<Rightarrow> r),
                     u_is_active := (case valid_is_active updates of None \<Rightarrow> u_is_active u | Some b \<Rightarrow> b)\<rparr>
              else u) (users d) \<and>
   fst (updateUser e d user_id updates) = d\<lparr>users := users (fst (updateUser e d user_id updates))\<rparr> \<and>
   (\<forall>r. valid_role updates = Some r \<longleftrightarrow>
         get_prop updates ''role'' = Some (JStr r) \<and> (r = ''user'' \<or> r = ''admin'')) \<and>
   (\<forall>b. valid_is_active updates = Some b \<longleftrightarrow> get_prop updates ''is_active'' = Some (JBool b)) \<and>
   (\<forall>updates'. get_prop updates' ''role'' = get_prop updates ''role'' \<and>
               get_prop updates' ''is_active'' = get_prop updates ''is_active'' \<longrightarrow>
               updateUser e d user_id updates' = updateUser e d user_id updates)"
  by (intro conjI allI impI updateUser_none updateUser_some updateUser_users updateUser_frame
      valid_role_iff valid_is_active_iff updateUser_other_fields) simp_all

text \<open>
  A body with a valid role, a text where a boolean is expected and a new password:
  only the role of user 2 changes. An empty body changes nothing.
\<close>

theorem updateUser_whitelist_witness:
  "users (fst (updateUser example_env example_db ''2''
                 [(''role'', JStr ''admin''), (''is_active'', JStr ''no''), (''password'', JStr ''x'')])) =
     [\<lparr>u_id = 1, u_email = ''admin@sneakzone.com'', u_password = ''$2a$12$#Adm1nSneakZone97!'',
       u_first_name = ''Admin'', u_last_name = ''SneakZone'', u_role = ''admin'',
       u_is_active = True, u_created_at = ''2024-05-01 10:00:00''\<rparr>,
      \<lparr>u_id = 2, u_email = ''u1@example.com'', u_password = ''$2a$12$password1'',
       u_first_name = ''Jane'', u_last_name = ''Doe'', u_role = ''admin'',
       u_is_active = True, u_created_at = ''2024-05-01 10:00:00''\<rparr>] \<and>
   updateUser example_env example_db ''2'' [(''password'', JStr ''x'')] =
     (example_db, [(''success'', JBool False), (''message'', JStr ''Aucune modification valide'')])"
proof -
  let ?b = "[(''role'', JStr ''admin''), (''is_active'', JStr ''no''), (''password'', JStr ''x'')]"
  have r: "valid_role ?b = Some ''admin''" and a: "valid_is_active ?b = None"
    by (simp_all add: valid_role_def valid_is_active_def get_prop_def)
  have n: "valid_role [(''password'', JStr ''x'')] = None \<and> valid_is_active [(''password'', JStr ''x'')] = None"
    by (simp add: valid_role_def valid_is_active_def get_prop_def)
  have 1: "users (fst (updateUser example_env example_db ''2'' ?b)) =
     map (\<lambda>u. if sql_integer example_env ''2'' = Some (u_id u)
              then u\<lparr>u_role := (case valid_role ?b of None \<Rightarrow> u_role u | Some r \<Rightarrow> r),
                     u_is_active := (case valid_is_active ?b of None \<Rightarrow> u_is_active u | Some b \<Rightarrow> b)\<rparr>
              else u) (users example_db)"
    using updateUser_whitelist[of ?b example_env example_db "''2''"] by blast
  have 2: "updateUser example_env example_db ''2'' [(''password'', JStr ''x'')] =
     (example_db, [(''success'', JBool False), (''message'', JStr ''Aucune modification valide'')])"
    using updateUser_whitelist[of "[(''password'', JStr ''x'')]" example_env example_db "''2''"] n by blast
  show ?thesis
    unfolding 1 2 r a by (simp add: example_db_def example_env_def)
qed

section \<open>Deleting a user\<close>

lemma init_example: "initDatabase example_env db = Some seeded_db"
  by (simp add: initDatabase_def example_env_def db_def insert_user_def insert_product_def
      seed_products_def seeded_db_def admin_row_def)

lemmas route_defs =
  register_def login_def logout_def post_favorite_def favorites_toggle_def post_cart_def cart_add_def
  delete_cart_def cart_remove_def put_admin_user_def delete_admin_user_def post_admin_product_def
  authenticateToken_def requireAdmin_def handleValidationErrors_def user_by_email_def user_by_id_def
  product_by_name_def favorite_of_def cart_item_of_def insert_favorite_def insert_cart_item_def
  may_insert_def insert_user_def delete_favorite_def increment_cart_item_def delete_cart_item_def
  deleteUser_def delete_user_def updateUser_def update_users_def addProduct_def get_prop_def

text \<open>
  C6, at a concrete run. After \<open>initDatabase\<close> a visitor registers (and gets the
  id 2), marks a product as favorite and puts it in the cart; the administrator
  logs in and deletes user 2. The user row is gone, and the favorites row and the
  cart row of user 2 are still there: the connection does not enforce the foreign
  keys, so \<open>ON DELETE CASCADE\<close> does nothing.
\<close>

theorem deleted_user_leaves_rows:
  "initDatabase example_env db = Some seeded_db \<and>
   map u_id (users (fst (run example_env (seeded_db, \<lparr>userId = None, csrfSecret = None\<rparr>) orphan_trace))) = [1] \<and>
   map f_user_id (favorites (fst (run example_env (seeded_db, \<lparr>userId = None, csrfSecret = None\<rparr>) orphan_trace))) = [2] \<and>
   map c_user_id (cart_items (fst (run example_env (seeded_db, \<lparr>userId = None, csrfSecret = None\<rparr>) orphan_trace))) = [2] \<and>
   map c_quantity (cart_items (fst (run example_env (seeded_db, \<lparr>userId = None, csrfSecret = None\<rparr>) orphan_trace))) = [1]"
proof -
  have "run example_env (seeded_db, \<lparr>userId = None, csrfSecret = None\<rparr>) orphan_trace =
      (seeded_db\<lparr>favorites := [\<lparr>f_id = 1, f_user_id = 2, f_product_id = 3, f_created_at = ''2024-05-01 10:00:00''\<rparr>],
                 cart_items := [\<lparr>c_id = 1, c_user_id = 2, c_product_id = 3, c_quantity = 1,
                                 c_created_at = ''2024-05-01 10:00:00''\<rparr>],
                 users_seq := 2, favorites_seq := 1, cart_items_seq := 1\<rparr>,
       \<lparr>userId = Some 1, csrfSecret = None\<rparr>)"
    by (simp add: seeded_db_def admin_row_def orphan_trace_def jane_def admin_login_def route_defs
        example_env_def parseInt_def Let_def is_digit_def digit_value_def digits_value_def
        ws_prefix_def space_sequences_def decodeURIComponent_def)
  then show ?thesis
    using init_example by (simp add: seeded_db_def admin_row_def)
qed

text \<open>
  No route switches the enforcement on, so on every run from \<open>initDatabase\<close> a
  deleted user leaves the dependent rows where they are.
\<close>

lemma delete_user_not_enforced:
  "\<not> foreign_keys d \<Longrightarrow>
   favorites (delete_user e d user_id) = favorites d \<and>
   cart_items (delete_user e d user_id) = cart_items d"
  by (simp add: delete_user_def split: option.splits)

lemma foreign_keys_kept:
  "foreign_keys (fst (fst (register e (d, s) b))) = foreign_keys d"
  "foreign_keys (fst (post_favorite e d s n)) = foreign_keys d"
  "foreign_keys (fst (post_cart e d s n)) = foreign_keys d"
  "foreign_keys (fst (delete_cart e d s n)) = foreign_keys d"
  "foreign_keys (fst (put_admin_user e d s i b)) = foreign_keys d"
  "foreign_keys (fst (delete_admin_user e d s i)) = foreign_keys d"
  "foreign_keys (fst (post_admin_product e d s b)) = foreign_keys d"
  by (auto simp: register_def insert_user_def post_favorite_def favorites_toggle_def
      delete_favorite_def insert_favorite_def post_cart_def cart_add_def increment_cart_item_def
      insert_cart_item_def delete_cart_def cart_remove_def delete_cart_item_def
      put_admin_user_def updateUser_def update_users_def delete_admin_user_def deleteUser_def
      delete_user_def post_admin_product_def addProduct_def insert_product_def
      split: sum.splits option.splits if_splits prod.splits)

lemma handle_foreign_keys: "foreign_keys (fst (fst (handle e st r))) = foreign_keys (fst st)"
  by (cases st; cases r) (simp_all add: split_beta foreign_keys_kept)

lemma run_foreign_keys: "foreign_keys (fst (run e st rs)) = foreign_keys (fst st)"
  by (induction rs arbitrary: st) (simp_all add: handle_foreign_keys)

lemma reachable_foreign_keys_off:
  assumes "initDatabase e db = Some d0"
  shows "\<not> foreign_keys (fst (run e (d0, s) rs))"
proof -
  have "foreign_keys (fold (insert_product e) ps d) = foreign_keys d" for ps d
    by (induction ps arbitrary: d) (simp_all add: insert_product_def split_beta)
  with assms have "\<not> foreign_keys d0"
    by (auto simp: initDatabase_def db_def insert_user_def split: option.splits if_splits)
  then show ?thesis by (simp add: run_foreign_keys)
qed

text \<open>
  With foreign keys enforced the same statement would take the dependent rows along,
  and on every run from \<open>initDatabase\<close> the quantities stay at 1 or above.
\<close>

lemma delete_user_enforced:
  assumes "foreign_keys d" and "sql_integer e user_id = Some i" and "i \<in> set (map u_id (users d))"
  shows "i \<notin> set (map u_id (users (delete_user e d user_id))) \<and>
         i \<notin> set (map f_user_id (favorites (delete_user e d user_id))) \<and>
         i \<notin> set (map c_user_id (cart_items (delete_user e d user_id)))"
  using assms by (auto simp: delete_user_def)

lemma post_cart_positive:
  "quantities_positive d \<Longrightarrow> quantities_positive (fst (post_cart e d s n))"
  by (auto simp: quantities_positive_def list_all_iff post_cart_def cart_add_def
      increment_cart_item_def insert_cart_item_def add_one_def
      split: sum.splits option.splits if_splits)

lemma cart_items_unchanged:
  "cart_items (fst (fst (register e (d, s) b))) = cart_items d"
  "cart_items (fst (post_favorite e d s n)) = cart_items d"
  "cart_items (fst (put_admin_user e d s i b)) = cart_items d"
  "cart_items (fst (post_admin_product e d s b)) = cart_items d"
  by (auto simp: register_def insert_user_def post_favorite_def favorites_toggle_def
      delete_favorite_def insert_favorite_def put_admin_user_def updateUser_def update_users_def
      post_admin_product_def addProduct_def insert_product_def
      split: sum.splits option.splits if_splits prod.splits)

lemma cart_items_filtered:
  "set (cart_items (fst (delete_cart e d s n))) \<subseteq> set (cart_items d)"
  "set (cart_items (fst (delete_admin_user e d s i))) \<subseteq> set (cart_items d)"
  by (auto simp: delete_cart_def cart_remove_def delete_cart_item_def delete_admin_user_def
      deleteUser_def delete_user_def
      split: sum.splits option.splits if_splits prod.splits)

lemma handle_positive:
  "quantities_positive (fst st) \<Longrightarrow> quantities_positive (fst (fst (handle e st r)))"
proof (cases st)
  case (Pair d s)
  assume "quantities_positive (fst st)"
  with Pair have q: "quantities_positive d" by simp
  show ?thesis
  proof (cases r)
    case (AddToCart n)
    then show ?thesis using Pair post_cart_positive[OF q, of e s n] by (simp add: split_beta)
  next
    case (RemoveFromCart n)
    then show ?thesis
      using Pair q cart_items_filtered(1)[of e d s n]
      by (auto simp: split_beta quantities_positive_def list_all_iff)
  next
    case (DeleteUser i)
    then show ?thesis
      using Pair q cart_items_filtered(2)[of e d s i]
      by (auto simp: split_beta quantities_positive_def list_all_iff)
  qed (use Pair q in \<open>simp_all add: split_beta quantities_positive_def cart_items_unchanged\<close>)
qed

lemma run_positive:
  "quantities_positive (fst st) \<Longrightarrow> quantities_positive (fst (run e st rs))"
  by (induction rs arbitrary: st) (simp_all add: handle_positive)

lemma initDatabase_positive:
  "initDatabase e db = Some d0 \<Longrightarrow> quantities_positive d0"
proof -
  have "cart_items (fold (insert_product e) ps d) = cart_items d" for ps d
    by (induction ps arbitrary: d) (simp_all add: insert_product_def split_beta)
  then show "initDatabase e db = Some d0 \<Longrightarrow> quantities_positive d0"
    by (auto simp: initDatabase_def quantities_positive_def db_def insert_user_def
        split: option.splits if_splits)
qed

lemma reachable_quantities_positive:
  "initDatabase e db = Some d0 \<Longrightarrow> quantities_positive (fst (run e (d0, s) rs))"
  using run_positive[of "(d0, s)" e rs] initDatabase_positive by simp

section \<open>Names with a percent sign, and the end of the 64-bit integers\<close>

text \<open>
  A key that \<open>decodeURIComponent\<close> rejects ends each of the three handlers in its
  \<open>catch\<close>: the answer is 500 and the database is as it was.
\<close>

lemma undecodable_key:
  assumes "authenticateToken d s = Inr u" and "decodeURIComponent key = None"
  shows "post_favorite e d s key = (d, failure 500 ''Erreur gestion favoris'')"
    and "post_cart e d s key = (d, failure 500 ''Erreur ajout panier'')"
    and "delete_cart e d s key = (d, failure 500 ''Erreur suppression panier'')"
  using assms
  by (simp_all add: post_favorite_def favorites_toggle_def post_cart_def cart_add_def
      delete_cart_def cart_remove_def)

lemma percent_coton: "decodeURIComponent ''100% coton'' = None"
  by (simp add: decodeURIComponent_def hex_value_def)

text \<open>
  The administrator adds a product named \<open>100% coton\<close> and a visitor registers:
  the state these requests leave.
\<close>

lemma coton_run:
  "coton_state =
     (seeded_db\<lparr>users := [admin_row,
                    \<lparr>u_id = 2, u_email = ''u1@example.com'', u_password = ''$2a$12$password1'',
                      u_first_name = ''Jane'', u_last_name = ''Doe'', u_role = ''user'',
                      u_is_active = True, u_created_at = ''2024-05-01 10:00:00''\<rparr>],
                 products := products seeded_db @
                   [\<lparr>p_id = 4, p_name = ''100% coton'', p_brand = ''MAISON'', p_description = None,
                     p_price = JNum 25, p_image_emoji = None, p_sizes = None,
                     p_created_at = ''2024-05-01 10:00:00''\<rparr>],
                 users_seq := 2, products_seq := 4\<rparr>,
      \<lparr>userId = Some 2, csrfSecret = None\<rparr>)"
  by (simp add: coton_state_def coton_trace_def coton_def seeded_db_def admin_row_def jane_def
      admin_login_def route_defs example_env_def insert_product_def)

lemma coton_auth:
  "authenticateToken (fst coton_state) (snd coton_state) =
     Inr \<lparr>u_id = 2, u_email = ''u1@example.com'', u_password = ''$2a$12$password1'',
          u_first_name = ''Jane'', u_last_name = ''Doe'', u_role = ''user'',
          u_is_active = True, u_created_at = ''2024-05-01 10:00:00''\<rparr>"
  unfolding coton_run by (simp add: authenticateToken_def user_by_id_def seeded_db_def admin_row_def)

lemma coton_product:
  "map_option p_id (product_by_name (fst coton_state) ''100% coton'') = Some 4"
  unfolding coton_run by (simp add: product_by_name_def seeded_db_def)

text \<open>
  C1 fails in the code for a product whose name holds a percent sign. The product
  \<open>100% coton\<close> is in the table, with id 4, and the user with id 2 is logged in.
  The user's toggle for that name reaches the handler with the path parameter
  \<open>100% coton\<close>, which Express has decoded; the handler decodes it once more,
  \<open>decodeURIComponent\<close> throws, and the answer is 500 with
  \<open>Erreur gestion favoris\<close>: no favorite is inserted, and the answer is not the
  404 of an unknown product either.
\<close>

theorem favorite_of_percent_name:
  "map_option p_id (product_by_name (fst coton_state) ''100% coton'') = Some 4 \<and>
   map_option u_id (user_by_id (fst coton_state) 2) = Some 2 \<and>
   userId (snd coton_state) = Some 2 \<and>
   decodeURIComponent ''100% coton'' = None \<and>
   post_favorite example_env (fst coton_state) (snd coton_state) ''100% coton'' =
     (fst coton_state, failure 500 ''Erreur gestion favoris'') \<and>
   favorites (fst coton_state) = []"
proof -
  have "map_option u_id (user_by_id (fst coton_state) 2) = Some 2"
    and "userId (snd coton_state) = Some 2" and "favorites (fst coton_state) = []"
    unfolding coton_run by (simp_all add: user_by_id_def seeded_db_def admin_row_def)
  then show ?thesis
    using coton_product percent_coton undecodable_key(1)[OF coton_auth percent_coton] by simp
qed

text \<open>
  C9 fails in the code for the same name. The product \<open>100% coton\<close> is in the
  table and the cart of the user holds no row for it; the remove is answered 500
  with \<open>Erreur suppression panier\<close> and \<open>success = false\<close>, not with the
  success of a remove that finds nothing, and this failure is not the 404 of an
  unknown product.
\<close>

theorem remove_of_percent_name:
  "map_option p_id (product_by_name (fst coton_state) ''100% coton'') = Some 4 \<and>
   userId (snd coton_state) = Some 2 \<and>
   cart_rows (fst coton_state) 2 4 = [] \<and>
   delete_cart example_env (fst coton_state) (snd coton_state) ''100% coton'' =
     (fst coton_state, failure 500 ''Erreur suppression panier'') \<and>
   res_prop (snd (delete_cart example_env (fst coton_state) (snd coton_state) ''100% coton'')) ''success'' =
     Some (JBool False)"
proof -
  have "userId (snd coton_state) = Some 2" and "cart_rows (fst coton_state) 2 4 = []"
    unfolding coton_run by (simp_all add: cart_rows_def seeded_db_def)
  then show ?thesis
    using coton_product undecodable_key(3)[OF coton_auth percent_coton]
    by (simp add: res_prop_def failure_def json_res_def get_prop_def)
qed



section \<open>The CSRF check\<close>

lemma csrfProtection_secret:
  "session_secret e (fst (csrfProtection e method token s)) = session_secret e s"
  by (simp add: csrfProtection_def session_secret_def)



section \<open>Rate limiting\<close>





lemma rateLimit_admitted:
  "admits e opts hits key clock \<Longrightarrow>
   snd (rateLimit e opts key clock next (hits, st)) = snd (next st) \<and>
   snd (fst (rateLimit e opts key clock next (hits, st))) = fst (next st)"
  by (simp add: rateLimit_def split_beta)




















section \<open>Responses and the stored hash\<close>

lemma find_map: "find P (map g xs) = map_option g (find (P \<circ> g) xs)"
  by (induction xs) simp_all

lemma insort_key_map:
  "insort_key k (g x) (map g xs) = map g (insort_key (\<lambda>a. k (g a)) x xs)"
  by (induction xs) simp_all

lemma sort_key_map: "sort_key k (map g xs) = map g (sort_key (\<lambda>a. k (g a)) xs)"
  by (induction xs) (simp_all add: insort_key_map)

lemma select_columns_password:
  "''password'' \<notin> set cols \<Longrightarrow> select_columns cols (u\<lparr>u_password := x\<rparr>) = select_columns cols u"
  by (auto simp: select_columns_def user_column_def)

lemma authenticateToken_scrub:
  "authenticateToken (scrub f d) s =
     (case authenticateToken d s of Inl r \<Rightarrow> Inl r | Inr u \<Rightarrow> Inr (u\<lparr>u_password := f u\<rparr>))"
  by (simp add: authenticateToken_def user_by_id_def scrub_def find_map comp_def
      split: option.splits)

lemma verify_scrub: "verify (scrub f d) s = verify d s"
  by (simp add: verify_def authenticateToken_scrub select_columns_password auth_columns_def
      split: sum.splits)

lemma getUsers_scrub: "getUsers (scrub f d) = getUsers d"
proof -
  have "map (select_columns listing_columns) (map (\<lambda>u. u\<lparr>u_password := f u\<rparr>) xs) =
        map (select_columns listing_columns) xs" for xs
    by (simp add: select_columns_password listing_columns_def)
  then show ?thesis
    by (simp add: getUsers_def scrub_def sort_key_map rev_map[symmetric])
qed

lemma get_admin_users_scrub: "get_admin_users (scrub f d) s = get_admin_users d s"
  by (simp add: get_admin_users_def admin_only_def authenticateToken_scrub getUsers_scrub
      requireAdmin_def split: sum.splits)

lemma scrub_ids: "u_id ` set (users (scrub f d)) = u_id ` set (users d)"
  by (simp add: scrub_def image_image)

lemma scrub_tables:
  "products (scrub f d) = products d" "favorites (scrub f d) = favorites d"
  "cart_items (scrub f d) = cart_items d" "foreign_keys (scrub f d) = foreign_keys d"
  "length (users (scrub f d)) = length (users d)"
  by (simp_all add: scrub_def)

lemma scrub_lookups:
  "product_by_name (scrub f d) n = product_by_name d n"
  "favorite_of (scrub f d) uid pid = favorite_of d uid pid"
  "cart_item_of (scrub f d) uid pid = cart_item_of d uid pid"
  by (simp_all add: product_by_name_def favorite_of_def cart_item_of_def scrub_tables)

lemma get_products_scrub: "get_products (scrub f d) = get_products d"
  by (simp add: get_products_def scrub_tables)

lemma get_favorites_scrub: "get_favorites (scrub f d) s = get_favorites d s"
  by (simp add: get_favorites_def authenticateToken_scrub scrub_tables split: sum.splits)

lemma get_cart_scrub: "get_cart (scrub f d) s = get_cart d s"
  by (simp add: get_cart_def authenticateToken_scrub scrub_tables split: sum.splits)

lemma getStats_scrub: "getStats (scrub f d) = getStats d"
  by (simp add: getStats_def scrub_def filter_map comp_def)

lemma getAllProducts_scrub: "getAllProducts (scrub f d) = getAllProducts d"
  by (simp add: getAllProducts_def scrub_tables)

lemma admin_only_scrub: "admin_only (scrub f d) s x = admin_only d s x"
  by (simp add: admin_only_def authenticateToken_scrub requireAdmin_def split: sum.splits)

lemma admin_reads_scrub:
  "get_admin_stats (scrub f d) s = get_admin_stats d s"
  "get_admin_products (scrub f d) s = get_admin_products d s"
  by (simp_all add: get_admin_stats_def get_admin_products_def admin_only_scrub getStats_scrub
      getAllProducts_scrub)

lemma post_favorite_scrub: "snd (post_favorite e (scrub f d) s n) = snd (post_favorite e d s n)"
  by (simp add: post_favorite_def favorites_toggle_def authenticateToken_scrub scrub_lookups
      insert_favorite_def may_insert_def scrub_tables scrub_ids
      split: sum.splits option.splits)

lemma post_cart_scrub: "snd (post_cart e (scrub f d) s n) = snd (post_cart e d s n)"
  by (simp add: post_cart_def cart_add_def authenticateToken_scrub scrub_lookups
      insert_cart_item_def may_insert_def scrub_tables scrub_ids
      split: sum.splits option.splits)

lemma delete_cart_scrub: "snd (delete_cart e (scrub f d) s n) = snd (delete_cart e d s n)"
  by (simp add: delete_cart_def cart_remove_def authenticateToken_scrub scrub_lookups
      split: sum.splits option.splits)

lemma admin_writes_scrub:
  "snd (put_admin_user e (scrub f d) s i b) = snd (put_admin_user e d s i b)"
  "snd (delete_admin_user e (scrub f d) s i) = snd (delete_admin_user e d s i)"
  "snd (post_admin_product e (scrub f d) s b) = snd (post_admin_product e d s b)"
  by (simp_all add: put_admin_user_def delete_admin_user_def post_admin_product_def
      authenticateToken_scrub requireAdmin_def updateUser_def deleteUser_def addProduct_def
      split: sum.splits option.splits prod.splits)

lemma user_json_password: "user_json (u\<lparr>u_password := x\<rparr>) = user_json u"
  by (simp add: user_json_def)

lemma user_by_email_scrub:
  "user_by_email e (scrub f d) em = map_option (\<lambda>u. u\<lparr>u_password := f u\<rparr>) (user_by_email e d em)"
  by (simp add: user_by_email_def scrub_def find_map comp_def split: option.splits)

lemma user_by_email_mem: "user_by_email e d em = Some u \<Longrightarrow> u \<in> set (users d)"
  by (auto simp: user_by_email_def find_Some_iff split: option.splits)

lemma login_scrub:
  assumes "\<forall>u\<in>set (users d).
             bcrypt_compare e (get_prop (snd (validate_login e b)) ''password'') (f u) =
             bcrypt_compare e (get_prop (snd (validate_login e b)) ''password'') (u_password u)"
  shows "snd (login e (scrub f d) s b) = snd (login e d s b)"
proof (cases "user_by_email e d (get_prop (snd (validate_login e b)) ''email'')")
  case None
  then show ?thesis
    by (simp add: login_def user_by_email_scrub split_beta split: option.splits)
next
  case (Some u)
  then have "u \<in> set (users d)" by (rule user_by_email_mem)
  with assms have "bcrypt_compare e (get_prop (snd (validate_login e b)) ''password'') (f u) =
             bcrypt_compare e (get_prop (snd (validate_login e b)) ''password'') (u_password u)"
    by blast
  with Some show ?thesis
    by (simp add: login_def user_by_email_scrub split_beta user_json_password split: option.splits)
qed

lemma login_success_shape:
  assumes "status (snd (login e d s b)) = 200"
  shows "\<exists>u\<in>set (users d).
           snd (login e d s b) =
             json_res 200 [(''success'', JBool True),
                           (''message'', JStr (''Connexion r'' @ e_acute @ ''ussie'')),
                           (''user'', JObj [(''id'', JNum (u_id u)), (''email'', JStr (u_email u)),
                                            (''firstName'', JStr (u_first_name u)),
                                            (''lastName'', JStr (u_last_name u)),
                                            (''role'', JStr (u_role u))])]"
  using assms
  by (auto simp: login_def handleValidationErrors_def failure_def json_res_def user_json_def split_beta
      dest: user_by_email_mem split: option.splits if_splits)

lemma find_snoc:
  "find P (xs @ [x]) = (case find P xs of Some y \<Rightarrow> Some y | None \<Rightarrow> if P x then Some x else None)"
  by (induction xs) simp_all

lemma register_inserted:
  assumes "validate_register e b = (errors, body')" and "handleValidationErrors errors = None"
    and "user_by_email e d (get_prop body' ''email'') = None"
    and "bcrypt_hash e (get_prop body' ''password'') = Some h"
    and "sql_text e (get_prop body' ''email'') = Some em"
    and "sql_text e (get_prop body' ''firstName'') = Some fn"
    and "sql_text e (get_prop body' ''lastName'') = Some ln"
  shows "register e (d, s) b =
     (case insert_user e d em h fn ln ''user'' of
        None \<Rightarrow> ((d, s), failure 500 (''Erreur cr'' @ e_acute @ ''ation compte''))
      | Some d' \<Rightarrow> ((d', s\<lparr>userId := Some (users_seq d')\<rparr>), registered d'))"
  using assms by (simp add: register_def registered_def split: option.splits)

lemma register_not_inserted:
  assumes "validate_register e b = (errors, body')"
    and "handleValidationErrors errors \<noteq> None \<or>
         user_by_email e d (get_prop body' ''email'') \<noteq> None \<or>
         bcrypt_hash e (get_prop body' ''password'') = None \<or>
         sql_text e (get_prop body' ''email'') = None \<or>
         sql_text e (get_prop body' ''firstName'') = None \<or>
         sql_text e (get_prop body' ''lastName'') = None"
  shows "snd (register e (d, s) b) =
     (case handleValidationErrors errors of
        Some r \<Rightarrow> r
      | None \<Rightarrow>
          if user_by_email e d (get_prop body' ''email'') \<noteq> None
          then failure 400 (''Un compte avec cet email existe d'' @ e_acute @ ''j'' @ a_grave)
          else failure 500 (''Erreur cr'' @ e_acute @ ''ation compte''))"
  using assms by (auto simp: register_def split: option.splits)

lemma insert_user_scrub:
  "insert_user e (scrub f d) em h fn ln r =
     map_option (\<lambda>d'. d'\<lparr>users := map (\<lambda>u. u\<lparr>u_password := f u\<rparr>) (users d) @ [last (users d')]\<rparr>)
       (insert_user e d em h fn ln r)"
  by (simp add: insert_user_def scrub_def comp_def)

lemma insert_user_users:
  "insert_user e d em h fn ln r = Some d' \<Longrightarrow> users d' = users d @ [last (users d')]"
  by (auto simp: insert_user_def split: if_splits)

lemma registered_scrub:
  assumes "users d' = users d @ [x]"
  shows "registered (d'\<lparr>users := map (\<lambda>u. u\<lparr>u_password := f u\<rparr>) (users d) @ [x]\<rparr>) = registered d'"
proof -
  have "map_option user_json (find (\<lambda>u. u_id u = i) (map (\<lambda>u. u\<lparr>u_password := f u\<rparr>) xs @ [x])) =
        map_option user_json (find (\<lambda>u. u_id u = i) (xs @ [x]))" for i xs
    by (simp add: find_snoc find_map comp_def user_json_password split: option.splits)
  then show ?thesis
    using assms by (simp add: registered_def user_by_id_def)
qed

lemma register_scrub: "snd (register e (scrub f d, s) b) = snd (register e (d, s) b)"
proof -
  obtain errors body' where v: "validate_register e b = (errors, body')" by force
  let ?out = "handleValidationErrors errors \<noteq> None \<or>
         user_by_email e d (get_prop body' ''email'') \<noteq> None \<or>
         bcrypt_hash e (get_prop body' ''password'') = None \<or>
         sql_text e (get_prop body' ''email'') = None \<or>
         sql_text e (get_prop body' ''firstName'') = None \<or>
         sql_text e (get_prop body' ''lastName'') = None"
  show ?thesis
  proof (cases ?out)
    case True
    then have "handleValidationErrors errors \<noteq> None \<or>
         user_by_email e (scrub f d) (get_prop body' ''email'') \<noteq> None \<or>
         bcrypt_hash e (get_prop body' ''password'') = None \<or>
         sql_text e (get_prop body' ''email'') = None \<or>
         sql_text e (get_prop body' ''firstName'') = None \<or>
         sql_text e (get_prop body' ''lastName'') = None"
      by (simp add: user_by_email_scrub)
    from register_not_inserted[OF v this] register_not_inserted[OF v True]
    show ?thesis by (simp add: user_by_email_scrub)
  next
    case False
    then obtain h em fn ln where
      c: "handleValidationErrors errors = None" "user_by_email e d (get_prop body' ''email'') = None"
        "bcrypt_hash e (get_prop body' ''password'') = Some h"
        "sql_text e (get_prop body' ''email'') = Some em"
        "sql_text e (get_prop body' ''firstName'') = Some fn"
        "sql_text e (get_prop body' ''lastName'') = Some ln"
      by auto
    have c2: "user_by_email e (scrub f d) (get_prop body' ''email'') = None"
      using c(2) by (simp add: user_by_email_scrub)
    show ?thesis
      unfolding register_inserted[OF v c(1) c2 c(3-6)] register_inserted[OF v c(1) c(2) c(3-6)]
        insert_user_scrub
      by (cases "insert_user e d em h fn ln ''user''")
         (simp_all add: registered_scrub[OF insert_user_users])
  qed
qed

lemma register_success_shape:
  assumes "status (snd (register e (d, s) b)) = 200"
  shows "\<exists>u\<in>set (users (fst (fst (register e (d, s) b)))).
           snd (register e (d, s) b) =
             json_res 200 [(''success'', JBool True),
                           (''message'', JStr (''Compte cr'' @ e_acute @ e_acute @ '' avec succ'' @ e_grave @ ''s'')),
                           (''user'', JObj [(''id'', JNum (u_id u)), (''email'', JStr (u_email u)),
                                            (''firstName'', JStr (u_first_name u)),
                                            (''lastName'', JStr (u_last_name u)),
                                            (''role'', JStr (u_role u))])]"
proof -
  obtain errors body' where v: "validate_register e b = (errors, body')" by force
  let ?out = "handleValidationErrors errors \<noteq> None \<or>
         user_by_email e d (get_prop body' ''email'') \<noteq> None \<or>
         bcrypt_hash e (get_prop body' ''password'') = None \<or>
         sql_text e (get_prop body' ''email'') = None \<or>
         sql_text e (get_prop body' ''firstName'') = None \<or>
         sql_text e (get_prop body' ''lastName'') = None"
  have "\<not> ?out"
  proof
    assume out: ?out
    show False
      using assms unfolding register_not_inserted[OF v out]
      by (auto simp: handleValidationErrors_def failure_def json_res_def split: option.splits if_splits)
  qed
  then obtain h em fn ln where
    c: "handleValidationErrors errors = None" "user_by_email e d (get_prop body' ''email'') = None"
      "bcrypt_hash e (get_prop body' ''password'') = Some h"
      "sql_text e (get_prop body' ''email'') = Some em"
      "sql_text e (get_prop body' ''firstName'') = Some fn"
      "sql_text e (get_prop body' ''lastName'') = Some ln"
    by auto
  note r = register_inserted[OF v c, of s]
  show ?thesis
  proof (cases "insert_user e d em h fn ln ''user''")
    case None
    with assms r show ?thesis by (simp add: failure_def json_res_def)
  next
    case (Some d')
    with assms r have st: "status (registered d') = 200" by simp
    then obtain u where u: "user_by_id d' (users_seq d') = Some u"
      by (cases "user_by_id d' (users_seq d')") (simp_all add: registered_def failure_def json_res_def)
    then have "u \<in> set (users d')"
      by (auto simp: user_by_id_def find_Some_iff)
    then show ?thesis
      using r Some u by (auto simp: registered_def user_json_def)
  qed
qed

lemma json_keys_column: "json_keys (user_column u c) = {}"
  by (simp add: user_column_def)

lemma json_keys_row: "json_keys (select_columns cols u) = set cols"
  by (auto simp: select_columns_def json_keys_column)

lemma verify_keys: "''password'' \<notin> json_keys (body (verify d s))"
  by (auto simp: verify_def authenticateToken_def failure_def json_res_def json_keys_row auth_columns_def
      split: sum.splits option.splits if_splits)

lemma get_admin_users_keys: "''password'' \<notin> json_keys (body (get_admin_users d s))"
  by (auto simp: get_admin_users_def admin_only_def getUsers_def authenticateToken_def requireAdmin_def
      failure_def json_res_def json_keys_row listing_columns_def
      split: sum.splits option.splits if_splits)

text \<open>
  C10. The responses and the stored hashes. The rows that \<open>verify\<close> and the admin
  listing send come from column lists without \<open>password\<close>, no object in those two
  responses has a property of that name, and both responses stay the same when
  every stored hash is replaced by anything else. A register or login response
  with status 200 carries, for one row \<open>u\<close> of \<open>users\<close>, exactly \<open>id\<close>,
  \<open>email\<close>, \<open>firstName\<close>, \<open>lastName\<close> and \<open>role\<close> of \<open>u\<close>. Replacing the
  stored hashes changes no response of any other route either; the login response
  depends on them only through the verdict of \<open>bcrypt.compare\<close>.
\<close>

theorem password_hash_not_exposed:
  "verify (scrub f d) s = verify d s \<and>
   get_admin_users (scrub f d) s = get_admin_users d s \<and>
   ''password'' \<notin> set auth_columns \<and> ''password'' \<notin> set listing_columns \<and>
   ''password'' \<notin> json_keys (body (verify d s)) \<and>
   ''password'' \<notin> json_keys (body (get_admin_users d s)) \<and>
   (status (snd (register e (d, s) b)) = 200 \<longrightarrow>
      (\<exists>u\<in>set (users (fst (fst (register e (d, s) b)))).
         snd (register e (d, s) b) =
           json_res 200 [(''success'', JBool True),
                         (''message'', JStr (''Compte cr'' @ e_acute @ e_acute @ '' avec succ'' @ e_grave @ ''s'')),
                         (''user'', JObj [(''id'', JNum (u_id u)), (''email'', JStr (u_email u)),
                                          (''firstName'', JStr (u_first_name u)),
                                          (''lastName'', JStr (u_last_name u)),
                                          (''role'', JStr (u_role u))])])) \<and>
   (status (snd (login e d s b)) = 200 \<longrightarrow>
      (\<exists>u\<in>set (users d).
         snd (login e d s b) =
           json_res 200 [(''success'', JBool True),
                         (''message'', JStr (''Connexion r'' @ e_acute @ ''ussie'')),
                         (''user'', JObj [(''id'', JNum (u_id u)), (''email'', JStr (u_email u)),
                                          (''firstName'', JStr (u_first_name u)),
                                          (''lastName'', JStr (u_last_name u)),
                                          (''role'', JStr (u_role u))])])) \<and>
   ((\<forall>u\<in>set (users d).
        bcrypt_compare e (get_prop (snd (validate_login e b)) ''password'') (f u) =
        bcrypt_compare e (get_prop (snd (validate_login e b)) ''password'') (u_password u)) \<longrightarrow>
      snd (login e (scrub f d) s b) = snd (login e d s b)) \<and>
   snd (register e (scrub f d, s) b) = snd (register e (d, s) b) \<and>
   get_products (scrub f d) = get_products d \<and>
   get_favorites (scrub f d) s = get_favorites d s \<and>
   get_cart (scrub f d) s = get_cart d s \<and>
   get_admin_stats (scrub f d) s = get_admin_stats d s \<and>
   get_admin_products (scrub f d) s = get_admin_products d s \<and>
   snd (post_favorite e (scrub f d) s n) = snd (post_favorite e d s n) \<and>
   snd (post_cart e (scrub f d) s n) = snd (post_cart e d s n) \<and>
   snd (delete_cart e (scrub f d) s n) = snd (delete_cart e d s n) \<and>
   snd (put_admin_user e (scrub f d) s i b) = snd (put_admin_user e d s i b) \<and>
   snd (delete_admin_user e (scrub f d) s i) = snd (delete_admin_user e d s i) \<and>
   snd (post_admin_product e (scrub f d) s b) = snd (post_admin_product e d s b)"
  by (intro conjI impI verify_scrub get_admin_users_scrub verify_keys get_admin_users_keys
      register_success_shape login_success_shape login_scrub register_scrub get_products_scrub
      get_favorites_scrub get_cart_scrub admin_reads_scrub post_favorite_scrub post_cart_scrub
      delete_cart_scrub admin_writes_scrub)
     (simp_all add: auth_columns_def listing_columns_def)

text \<open>
  Jane logs in on the example database: the response carries her five fields and
  not her hash. With every hash replaced, \<open>verify\<close> answers as before, and so
  does a login with a wrong password.
\<close>

theorem password_hash_not_exposed_witness:
  "status (snd (login example_env example_db visitor_session jane_login)) = 200 \<and>
   u_password jane_row = ''$2a$12$password1'' \<and>
   body (snd (login example_env example_db visitor_session jane_login)) =
     JObj [(''success'', JBool True),
           (''message'', JStr (''Connexion r'' @ e_acute @ ''ussie'')),
           (''user'', JObj [(''id'', JNum 2), (''email'', JStr ''u1@example.com''),
                            (''firstName'', JStr ''Jane''), (''lastName'', JStr ''Doe''),
                            (''role'', JStr ''user'')])] \<and>
   verify (scrub (\<lambda>u. ''redacted'') example_db) example_session = verify example_db example_session \<and>
   snd (login example_env (scrub (\<lambda>u. ''redacted'') example_db) visitor_session jane_wrong) =
     snd (login example_env example_db visitor_session jane_wrong)"
proof -
  note t = password_hash_not_exposed[of "\<lambda>u. ''redacted''" example_db _ example_env]
  have ok: "status (snd (login example_env example_db visitor_session jane_login)) = 200"
    by (simp add: login_def handleValidationErrors_def user_by_email_def get_prop_def failure_def json_res_def
        visitor_session_def jane_login_def example_env_def example_db_def)
  from t[of visitor_session jane_login] ok obtain u where
    u: "u \<in> set (users example_db)"
      "snd (login example_env example_db visitor_session jane_login) =
           json_res 200 [(''success'', JBool True),
                         (''message'', JStr (''Connexion r'' @ e_acute @ ''ussie'')),
                         (''user'', JObj [(''id'', JNum (u_id u)), (''email'', JStr (u_email u)),
                                          (''firstName'', JStr (u_first_name u)),
                                          (''lastName'', JStr (u_last_name u)),
                                          (''role'', JStr (u_role u))])]"
    by blast
  have "u_id u = 2"
    using u(2)
    by (simp add: login_def handleValidationErrors_def user_by_email_def get_prop_def failure_def json_res_def
        visitor_session_def jane_login_def example_env_def example_db_def user_json_def)
  with u(1) have "u = jane_row"
    by (auto simp: example_db_def jane_row_def)
  with u(2) have b: "body (snd (login example_env example_db visitor_session jane_login)) =
     JObj [(''success'', JBool True),
           (''message'', JStr (''Connexion r'' @ e_acute @ ''ussie'')),
           (''user'', JObj [(''id'', JNum 2), (''email'', JStr ''u1@example.com''),
                            (''firstName'', JStr ''Jane''), (''lastName'', JStr ''Doe''),
                            (''role'', JStr ''user'')])]"
    by (simp add: json_res_def jane_row_def)
  have pw: "u_password jane_row = ''$2a$12$password1''" by (simp add: jane_row_def)
  have v: "verify (scrub (\<lambda>u. ''redacted'') example_db) example_session = verify example_db example_session"
    using t[of example_session jane_login] by blast
  have c: "\<forall>u\<in>set (users example_db).
        bcrypt_compare example_env (get_prop (snd (validate_login example_env jane_wrong)) ''password'') ''redacted'' =
        bcrypt_compare example_env (get_prop (snd (validate_login example_env jane_wrong)) ''password'') (u_password u)"
    by (simp add: example_env_def example_db_def jane_wrong_def get_prop_def)
  have l: "snd (login example_env (scrub (\<lambda>u. ''redacted'') example_db) visitor_session jane_wrong) =
     snd (login example_env example_db visitor_session jane_wrong)"
    using t[of visitor_session jane_wrong] c by blast
  from ok pw b v l show ?thesis by blast
qed

end
